theory Spec2Isabelle
  imports Complex_Main
begin

section \<open>The tables\<close>

text \<open>
  The models of \<^verbatim>\<open>Cart.py\<close> and \<^verbatim>\<open>Resenas.py\<close> are SQLAlchemy classes. A row of a
  table is a record, a nullable column is an \<open>option\<close>, and a table is the list of its
  rows in the order of insertion. Python integers are unbounded, so every integer column
  is an \<open>int\<close>; what the column types and the \<^verbatim>\<open>CheckConstraint\<close>s of the classes refuse
  is written out where a row is stored.

  The classes \<^verbatim>\<open>Producto\<close> and \<^verbatim>\<open>Usuario\<close> live in modules that the functions here only
  import. Of a product the functions read \<^verbatim>\<open>id\<close>, \<^verbatim>\<open>activo\<close>, \<^verbatim>\<open>stock\<close> and
  \<^verbatim>\<open>precio_centavos\<close>; of a user only that a row with the given primary key exists.
\<close>

record producto =
  prod_id :: int
  prod_activo :: bool
  prod_stock :: int
  prod_precio_centavos :: int

record cart =
  cart_id :: int
  cart_usuario_id :: "int option"
  cart_session_id :: "string option"
  cart_activo :: bool

record cart_item =
  item_id :: int
  item_cart_id :: int
  item_producto_id :: int
  item_cantidad :: int
  item_precio_unitario :: int

record resena =
  res_id :: int
  res_producto_id :: int
  res_usuario_id :: int
  res_calificacion :: int
  res_comentario :: string
  res_compra_verificada :: bool

record db =
  usuarios :: "int list"
  productos :: "producto list"
  carts :: "cart list"
  cart_items :: "cart_item list"
  resenas :: "resena list"

subsection \<open>Queries\<close>

text \<open>
  \<^verbatim>\<open>query.first()\<close> carries no \<^verbatim>\<open>ORDER BY\<close> anywhere in these modules; the model
  answers with the matching row that stands first in the table. A mapped object is one
  row of its table, so the model names it by the position of that row: an assignment to
  an attribute of the object rewrites the row at that position.
\<close>

fun first_index :: "('a \<Rightarrow> bool) \<Rightarrow> 'a list \<Rightarrow> nat option" where
  "first_index P [] = None"
| "first_index P (x # xs) = (if P x then Some 0 else map_option Suc (first_index P xs))"

definition first_row :: "('a \<Rightarrow> bool) \<Rightarrow> 'a list \<Rightarrow> 'a option" where
  "first_row P xs = map_option (\<lambda>i. xs ! i) (first_index P xs)"

text \<open>
  A primary key comes from the sequence of its table, which hands out a value that no
  row holds; the model takes the successor of the largest key in the table.
\<close>

definition nuevo_id :: "int list \<Rightarrow> int" where
  "nuevo_id ks = 1 + fold max ks 0"

definition get_cart :: "db \<Rightarrow> int \<Rightarrow> cart option" where
  "get_cart d k = first_row (\<lambda>c. cart_id c = k) (carts d)"

definition get_producto :: "db \<Rightarrow> int \<Rightarrow> producto option" where
  "get_producto d k = first_row (\<lambda>p. prod_id p = k) (productos d)"

definition existe_usuario :: "db \<Rightarrow> int \<Rightarrow> bool" where
  "existe_usuario d k = (k \<in> set (usuarios d))"

subsection \<open>What the database refuses\<close>

text \<open>
  A statement that the database refuses raises an \<^verbatim>\<open>SQLAlchemyError\<close>; every function
  of the two modules catches it, rolls the transaction back and returns its failure
  value. In the model the function then returns the database it was given.

  \<^verbatim>\<open>cart_items\<close>: \<^verbatim>\<open>cantidad\<close> is an \<^verbatim>\<open>Integer\<close> with \<^verbatim>\<open>CHECK (cantidad > 0)\<close>,
  \<^verbatim>\<open>precio_unitario\<close> a \<^verbatim>\<open>BigInteger\<close> with \<^verbatim>\<open>CHECK (precio_unitario >= 0)\<close>.
  \<^verbatim>\<open>carts\<close>: \<^verbatim>\<open>usuario_id\<close> is a nullable foreign key to \<^verbatim>\<open>usuarios.id\<close>, \<^verbatim>\<open>session_id\<close>
  a nullable \<^verbatim>\<open>String(255)\<close>.
\<close>

definition fila_item_valida :: "cart_item \<Rightarrow> bool" where
  "fila_item_valida r \<longleftrightarrow>
     0 < item_cantidad r \<and> item_cantidad r \<le> 2147483647 \<and>
     0 \<le> item_precio_unitario r \<and> item_precio_unitario r \<le> 9223372036854775807"

definition fila_cart_valida :: "db \<Rightarrow> cart \<Rightarrow> bool" where
  "fila_cart_valida d c \<longleftrightarrow>
     (case cart_usuario_id c of None \<Rightarrow> True | Some u \<Rightarrow> existe_usuario d u) \<and>
     (case cart_session_id c of None \<Rightarrow> True | Some s \<Rightarrow> length s \<le> 255)"

section \<open>Python floats\<close>

text \<open>
  A Python \<^verbatim>\<open>float\<close> is an IEEE 754 binary64 number and every operation rounds its exact
  result to the nearest one, ties to the even significand. A finite float is modelled by
  the rational number it denotes (the two zeros are one value), and \<open>rd\<close> is that
  rounding: a significand of 53 bits above the exponent \<open>-1074\<close>, where the subnormal
  numbers begin.
\<close>

definition pow2 :: "int \<Rightarrow> rat" where
  "pow2 e = (if 0 \<le> e then 2 ^ nat e else 1 / 2 ^ nat (- e))"

definition round_half_even :: "rat \<Rightarrow> int" where
  "round_half_even x =
     (let f = \<lfloor>x\<rfloor>; r = x - of_int f
      in if r < 1 / 2 then f else if 1 / 2 < r then f + 1 else if even f then f else f + 1)"

text \<open>The number of binary digits of a positive integer.\<close>

function bitlen :: "int \<Rightarrow> int" where
  "bitlen n = (if n \<le> 0 then 0 else 1 + bitlen (n div 2))"
  by pat_completeness auto
termination
  by (relation "measure nat") auto

declare bitlen.simps [simp del]

text \<open>\<open>ilog2 x\<close> is the integer \<open>k\<close> with \<open>2^k \<le> x < 2^(k+1)\<close>, for \<open>x > 0\<close>.\<close>

definition ilog2 :: "rat \<Rightarrow> int" where
  "ilog2 x =
     (let (a, b) = quotient_of x; k = bitlen a - bitlen b
      in if pow2 k \<le> x then k else k - 1)"

definition rd :: "rat \<Rightarrow> rat" where
  "rd x =
     (if x = 0 then 0
      else (let e = max (ilog2 \<bar>x\<bar> - 52) (- 1074)
            in of_int (round_half_even (x / pow2 e)) * pow2 e))"

text \<open>
  A float is \<open>Some\<close> of its value when it is finite and \<open>None\<close> when it is an infinity
  or a NaN. A result that rounds to \<open>2^1024\<close> or beyond is an infinity. Sums and
  products with a value that is not finite are not finite, and neither is its quotient
  by 100.
\<close>

type_synonym double = "rat option"

definition fin :: "rat \<Rightarrow> double" where
  "fin x = (let y = rd x in if \<bar>y\<bar> < 2 ^ 1024 then Some y else None)"

definition fmul :: "double \<Rightarrow> double \<Rightarrow> double" where
  "fmul a b = (case (a, b) of (Some x, Some y) \<Rightarrow> fin (x * y) | _ \<Rightarrow> None)"

definition fadd :: "double \<Rightarrow> double \<Rightarrow> double" where
  "fadd a b = (case (a, b) of (Some x, Some y) \<Rightarrow> fin (x + y) | _ \<Rightarrow> None)"

definition fdiv100 :: "double \<Rightarrow> double" where
  "fdiv100 a = (case a of Some x \<Rightarrow> fin (x / 100) | None \<Rightarrow> None)"

text \<open>
  \<^verbatim>\<open>round(x, 1)\<close> on a float: the exact value of \<^verbatim>\<open>x\<close> is rounded to one decimal, a tie
  going to the even digit, and the result is the float nearest to that decimal.
\<close>

definition py_round1 :: "double \<Rightarrow> double" where
  "py_round1 a =
     (case a of Some x \<Rightarrow> fin (of_int (round_half_even (x * 10)) / 10) | None \<Rightarrow> None)"

section \<open>The cart: \<^verbatim>\<open>Cart.py\<close>\<close>

text \<open>Python's truth value of an optional integer and of an optional string.\<close>

fun truthy_int :: "int option \<Rightarrow> bool" where
  "truthy_int None = False"
| "truthy_int (Some n) = (n \<noteq> 0)"

fun truthy_str :: "string option \<Rightarrow> bool" where
  "truthy_str None = False"
| "truthy_str (Some s) = (s \<noteq> [])"

text \<open>
  \<^verbatim>\<open>obtener_o_crear_carrito(usuario_id=None, session_id=None)\<close>: the active cart of the
  user when \<^verbatim>\<open>usuario_id\<close> is truthy, of the session otherwise; a new cart, holding both
  arguments as they were given, when there is none.
\<close>

definition obtener_o_crear_carrito :: "db \<Rightarrow> int option \<Rightarrow> string option \<Rightarrow> cart option \<times> db" where
  "obtener_o_crear_carrito d usuario_id session_id =
     (if \<not> truthy_int usuario_id \<and> \<not> truthy_str session_id then (None, d)
      else
        (case first_row
                (\<lambda>c. cart_activo c \<and>
                     (if truthy_int usuario_id then cart_usuario_id c = usuario_id
                      else cart_session_id c = session_id))
                (carts d) of
           Some c \<Rightarrow> (Some c, d)
         | None \<Rightarrow>
             (let c = \<lparr>cart_id = nuevo_id (map cart_id (carts d)),
                       cart_usuario_id = usuario_id, cart_session_id = session_id,
                       cart_activo = True\<rparr>
              in if fila_cart_valida d c then (Some c, d\<lparr>carts := carts d @ [c]\<rparr>)
                 else (None, d))))"

text \<open>
  \<^verbatim>\<open>agregar_item_carrito(cart_id, producto_id, cantidad=1)\<close>. The checks come in the
  order of the source: the cart, the product, \<^verbatim>\<open>producto.activo\<close>,
  \<^verbatim>\<open>producto.stock < cantidad\<close>, then the item of that product already in the cart.
  The result is the item returned (\<open>None\<close> for Python's \<^verbatim>\<open>None\<close>) and the database
  after the call.
\<close>

definition agregar_item_carrito :: "db \<Rightarrow> int \<Rightarrow> int \<Rightarrow> int \<Rightarrow> cart_item option \<times> db" where
  "agregar_item_carrito d cid pid cantidad =
     (case get_cart d cid of
        None \<Rightarrow> (None, d)
      | Some cart \<Rightarrow>
          (case get_producto d pid of
             None \<Rightarrow> (None, d)
           | Some producto \<Rightarrow>
               if \<not> prod_activo producto then (None, d)
               else if prod_stock producto < cantidad then (None, d)
               else
                 (case first_index (\<lambda>r. item_cart_id r = cid \<and> item_producto_id r = pid)
                         (cart_items d) of
                    Some i \<Rightarrow>
                      (let existing_item = cart_items d ! i;
                           nueva_cantidad = item_cantidad existing_item + cantidad
                       in if prod_stock producto < nueva_cantidad then (None, d)
                          else
                            (let item = existing_item\<lparr>item_cantidad := nueva_cantidad\<rparr>
                             in if fila_item_valida item
                                then (Some item, d\<lparr>cart_items := (cart_items d)[i := item]\<rparr>)
                                else (None, d)))
                  | None \<Rightarrow>
                      (let item = \<lparr>item_id = nuevo_id (map item_id (cart_items d)),
                                   item_cart_id = cid, item_producto_id = pid,
                                   item_cantidad = cantidad,
                                   item_precio_unitario = prod_precio_centavos producto\<rparr>
                       in if fila_item_valida item
                          then (Some item, d\<lparr>cart_items := cart_items d @ [item]\<rparr>)
                          else (None, d)))))"

text \<open>
  An exception that is not an \<^verbatim>\<open>SQLAlchemyError\<close> is not caught by the \<^verbatim>\<open>except\<close> clause
  of these functions and leaves the function; such a call returns \<open>Inl\<close> of it.
\<close>

datatype excepcion = AttributeError | KeyError | OverflowError

text \<open>
  \<^verbatim>\<open>actualizar_cantidad_item(item_id, cantidad)\<close>. \<^verbatim>\<open>item.producto\<close> is the row that the
  foreign key of the item names, \<^verbatim>\<open>None\<close> when there is no such row, and reading
  \<^verbatim>\<open>.stock\<close> of \<^verbatim>\<open>None\<close> raises \<^verbatim>\<open>AttributeError\<close>.
\<close>

definition actualizar_cantidad_item ::
  "db \<Rightarrow> int \<Rightarrow> int \<Rightarrow> excepcion + (cart_item option \<times> db)" where
  "actualizar_cantidad_item d iid cantidad =
     (case first_index (\<lambda>r. item_id r = iid) (cart_items d) of
        None \<Rightarrow> Inr (None, d)
      | Some i \<Rightarrow>
          if cantidad \<le> 0 then Inr (None, d)
          else
            (case get_producto d (item_producto_id (cart_items d ! i)) of
               None \<Rightarrow> Inl AttributeError
             | Some producto \<Rightarrow>
                 if prod_stock producto < cantidad then Inr (None, d)
                 else
                   (let item = (cart_items d ! i)\<lparr>item_cantidad := cantidad\<rparr>
                    in if fila_item_valida item
                       then Inr (Some item, d\<lparr>cart_items := (cart_items d)[i := item]\<rparr>)
                       else Inr (None, d))))"

text \<open>
  The loop of \<^verbatim>\<open>migrar_carrito_sesion_a_usuario\<close> over \<^verbatim>\<open>session_cart.items\<close>. The
  collection was loaded before the loop, so the loop visits the rows that were in the
  session cart then, given here by their positions \<open>js\<close>; the table has as many rows
  after the loop as before, so a position names the same row throughout. Each query of
  the loop flushes the pending changes first and so sees the rows as the earlier
  iterations left them. \<open>None\<close> is a flush that the database refuses.
\<close>

fun migrar_items :: "int \<Rightarrow> nat list \<Rightarrow> cart_item list \<Rightarrow> cart_item list option" where
  "migrar_items ucid [] its = Some its"
| "migrar_items ucid (j # js) its =
     (let session_item = its ! j in
      case first_index
             (\<lambda>r. item_cart_id r = ucid \<and> item_producto_id r = item_producto_id session_item)
             its of
        Some i \<Rightarrow>
          (let existing_item = (its ! i)\<lparr>item_cantidad :=
                                   item_cantidad (its ! i) + item_cantidad session_item\<rparr>
           in if fila_item_valida existing_item
              then migrar_items ucid js (its[i := existing_item])
              else None)
      | None \<Rightarrow>
          (let moved = session_item\<lparr>item_cart_id := ucid\<rparr>
           in if fila_item_valida moved
              then migrar_items ucid js (its[j := moved])
              else None))"

text \<open>The positions of the rows of \<^verbatim>\<open>cart_items\<close> that belong to a cart: \<^verbatim>\<open>cart.items\<close>.\<close>

definition posiciones_items :: "int \<Rightarrow> cart_item list \<Rightarrow> nat list" where
  "posiciones_items cid its = filter (\<lambda>j. item_cart_id (its ! j) = cid) [0..<length its]"

text \<open>
  The cart of the user that the migration fills: the first active cart of the user, or a
  new one (with no session id), added to the table. \<open>None\<close> when the database refuses
  the new row.
\<close>

definition carrito_destino :: "db \<Rightarrow> int \<Rightarrow> (cart \<times> cart list) option" where
  "carrito_destino d usuario_id =
     (case first_row (\<lambda>c. cart_usuario_id c = Some usuario_id \<and> cart_activo c) (carts d) of
        Some user_cart \<Rightarrow> Some (user_cart, carts d)
      | None \<Rightarrow>
          (let user_cart = \<lparr>cart_id = nuevo_id (map cart_id (carts d)),
                            cart_usuario_id = Some usuario_id, cart_session_id = None,
                            cart_activo = True\<rparr>
           in if fila_cart_valida d user_cart then Some (user_cart, carts d @ [user_cart])
              else None))"

text \<open>\<^verbatim>\<open>migrar_carrito_sesion_a_usuario(session_id, usuario_id)\<close>.\<close>

definition migrar_carrito_sesion_a_usuario :: "db \<Rightarrow> string \<Rightarrow> int \<Rightarrow> bool \<times> db" where
  "migrar_carrito_sesion_a_usuario d session_id usuario_id =
     (case first_index (\<lambda>c. cart_session_id c = Some session_id \<and> cart_activo c) (carts d) of
        None \<Rightarrow> (True, d)
      | Some si \<Rightarrow>
          (let js = posiciones_items (cart_id (carts d ! si)) (cart_items d)
           in if length js = 0 then (True, d)
              else
                (case carrito_destino d usuario_id of
                   None \<Rightarrow> (False, d)
                 | Some (user_cart, cs) \<Rightarrow>
                     (case migrar_items (cart_id user_cart) js (cart_items d) of
                        None \<Rightarrow> (False, d)
                      | Some its \<Rightarrow>
                          (True, d\<lparr>carts := cs[si := (cs ! si)\<lparr>cart_activo := False\<rparr>],
                                   cart_items := its\<rparr>)))))"

text \<open>
  \<^verbatim>\<open>calcular_totales_carrito(cart_id)\<close>. The subtotal and the shipping fee are Python
  integers (cents); \<^verbatim>\<open>subtotal * 0.1\<close> converts the subtotal to a float and multiplies
  by the float nearest to one tenth, and the two additions of \<^verbatim>\<open>total\<close> are float
  additions. \<^verbatim>\<open>subtotal / 100\<close> and \<^verbatim>\<open>envio / 100\<close> divide two integers and round the
  exact quotient; the other two divisions divide a float. An integer too large for a
  float raises \<^verbatim>\<open>OverflowError\<close> at the conversion, which \<^verbatim>\<open>except Exception\<close> turns
  into the result of a missing cart.
\<close>

record totales =
  t_subtotal :: double
  t_impuestos :: double
  t_envio :: double
  t_total :: double
  t_total_items :: int
  t_envio_gratis :: bool

definition totales_cero :: totales where
  "totales_cero = \<lparr>t_subtotal = Some 0, t_impuestos = Some 0, t_envio = Some 0,
                    t_total = Some 0, t_total_items = 0, t_envio_gratis = False\<rparr>"

definition calcular_totales_carrito :: "db \<Rightarrow> int \<Rightarrow> totales" where
  "calcular_totales_carrito d cid =
     (case get_cart d cid of
        None \<Rightarrow> totales_cero
      | Some cart \<Rightarrow>
          (let items_list = filter (\<lambda>r. item_cart_id r = cart_id cart) (cart_items d);
               subtotal = sum_list (map (\<lambda>r. item_cantidad r * item_precio_unitario r)
                                        items_list);
               total_items = sum_list (map item_cantidad items_list)
           in case fin (of_int subtotal) of
                None \<Rightarrow> totales_cero
              | Some sf \<Rightarrow>
                  (let impuestos = fmul (Some sf) (fin (1 / 10));
                       envio = (if subtotal \<ge> 100000 then 0 else 1500 :: int);
                       total = fadd (fadd (Some sf) impuestos) (fin (of_int envio))
                   in \<lparr>t_subtotal = fin (of_int subtotal / 100),
                       t_impuestos = fdiv100 impuestos,
                       t_envio = fin (of_int envio / 100),
                       t_total = fdiv100 total,
                       t_total_items = total_items,
                       t_envio_gratis = (subtotal \<ge> 100000)\<rparr>)))"


section \<open>The reviews: \<^verbatim>\<open>Resenas.py\<close>\<close>






text \<open>
  \<^verbatim>\<open>obtener_estadisticas_producto(producto_id)\<close>. The dictionary \<^verbatim>\<open>distribucion\<close> is
  the list of its entries in the order of its keys 1 to 5; \<^verbatim>\<open>distribucion[k] += 1\<close> on
  a key that it does not hold raises \<^verbatim>\<open>KeyError\<close>, which the function does not catch.
  The result without reviews has no entry \<^verbatim>\<open>porcentajes\<close>.
\<close>

record estadisticas =
  e_total :: int
  e_promedio :: double
  e_distribucion :: "(int \<times> int) list"
  e_porcentajes :: "(int \<times> double) list option"

fun incrementar :: "int \<Rightarrow> (int \<times> int) list \<Rightarrow> (int \<times> int) list option" where
  "incrementar k [] = None"
| "incrementar k ((k', c) # kcs) =
     (if k = k' then Some ((k', c + 1) # kcs)
      else map_option (\<lambda>r. (k', c) # r) (incrementar k kcs))"

fun contar :: "int list \<Rightarrow> (int \<times> int) list \<Rightarrow> (int \<times> int) list option" where
  "contar [] tabla = Some tabla"
| "contar (k # ks) tabla =
     (case incrementar k tabla of None \<Rightarrow> None | Some tabla' \<Rightarrow> contar ks tabla')"

definition distribucion_cero :: "(int \<times> int) list" where
  "distribucion_cero = [(1, 0), (2, 0), (3, 0), (4, 0), (5, 0)]"

definition obtener_estadisticas_producto :: "db \<Rightarrow> int \<Rightarrow> excepcion + estadisticas" where
  "obtener_estadisticas_producto d producto_id =
     (let rs = filter (\<lambda>r. res_producto_id r = producto_id) (resenas d)
      in if rs = []
         then Inr \<lparr>e_total = 0, e_promedio = Some 0, e_distribucion = distribucion_cero,
                   e_porcentajes = None\<rparr>
         else
           (let total = int (length rs);
                suma_calificaciones = sum_list (map res_calificacion rs)
            in case fin (of_int suma_calificaciones / of_int total) of
                 None \<Rightarrow> Inl OverflowError
               | Some cociente \<Rightarrow>
                   (case contar (map res_calificacion rs) distribucion_cero of
                      None \<Rightarrow> Inl KeyError
                    | Some distribucion \<Rightarrow>
                        Inr \<lparr>e_total = total,
                             e_promedio = py_round1 (Some cociente),
                             e_distribucion = distribucion,
                             e_porcentajes =
                               Some (map (\<lambda>(estrella, count).
                                            (estrella,
                                             py_round1 (fmul (fin (of_int count / of_int total))
                                                             (fin 100))))
                                         distribucion)\<rparr>)))"

text \<open>
  The subtotal of a cart in cents: the sum of quantity times unit price over the rows
  of \<^verbatim>\<open>cart_items\<close> of the cart. (Not a function of the source: it names the exact
  integer that the statements about the totals compare the floats with.)
\<close>

definition subtotal_centavos :: "db \<Rightarrow> int \<Rightarrow> int" where
  "subtotal_centavos d cid =
     sum_list (map (\<lambda>r. item_cantidad r * item_precio_unitario r)
                   (filter (\<lambda>r. item_cart_id r = cid) (cart_items d)))"

text \<open>
  The ratings of the reviews of a product, in the order of the table. (Not a function of
  the source: it names what the statements about the statistics range over.)
\<close>

definition calificaciones :: "db \<Rightarrow> int \<Rightarrow> int list" where
  "calificaciones d producto_id =
     map res_calificacion (filter (\<lambda>r. res_producto_id r = producto_id) (resenas d))"

section \<open>Example data\<close>

definition db_ejemplo :: db where
  "db_ejemplo =
     \<lparr>usuarios = [7],
      productos = [\<lparr>prod_id = 1, prod_activo = True, prod_stock = 10,
                    prod_precio_centavos = 5000\<rparr>],
      carts = [\<lparr>cart_id = 1, cart_usuario_id = Some 7, cart_session_id = Some ''s1'',
                cart_activo = True\<rparr>],
      cart_items = [\<lparr>item_id = 1, item_cart_id = 1, item_producto_id = 1,
                     item_cantidad = 5, item_precio_unitario = 5000\<rparr>],
      resenas = []\<rparr>"

definition db_sobre_stock :: db where
  "db_sobre_stock =
     \<lparr>usuarios = [7],
      productos = [\<lparr>prod_id = 1, prod_activo = True, prod_stock = 5,
                    prod_precio_centavos = 5000\<rparr>],
      carts = [\<lparr>cart_id = 1, cart_usuario_id = Some 7, cart_session_id = None,
                cart_activo = True\<rparr>,
               \<lparr>cart_id = 2, cart_usuario_id = None, cart_session_id = Some ''s2'',
                cart_activo = True\<rparr>],
      cart_items = [\<lparr>item_id = 1, item_cart_id = 1, item_producto_id = 1,
                     item_cantidad = 4, item_precio_unitario = 5000\<rparr>,
                    \<lparr>item_id = 2, item_cart_id = 2, item_producto_id = 1,
                     item_cantidad = 3, item_precio_unitario = 5000\<rparr>],
      resenas = []\<rparr>"


definition db_carrito_vacio :: db where
  "db_carrito_vacio = db_ejemplo\<lparr>cart_items := []\<rparr>"

definition db_totales :: db where
  "db_totales =
     db_ejemplo\<lparr>cart_items :=
       [\<lparr>item_id = 1, item_cart_id = 1, item_producto_id = 1, item_cantidad = 3,
         item_precio_unitario = 5000\<rparr>,
        \<lparr>item_id = 2, item_cart_id = 1, item_producto_id = 2, item_cantidad = 1,
         item_precio_unitario = 2000\<rparr>]\<rparr>"

definition db_4999 :: db where
  "db_4999 =
     db_ejemplo\<lparr>cart_items :=
       [\<lparr>item_id = 1, item_cart_id = 1, item_producto_id = 1, item_cantidad = 1,
         item_precio_unitario = 4999\<rparr>]\<rparr>"

definition resena_de :: "int \<Rightarrow> int \<Rightarrow> resena" where
  "resena_de u c = \<lparr>res_id = u, res_producto_id = 1, res_usuario_id = u,
                    res_calificacion = c, res_comentario = ''Muy buen producto'',
                    res_compra_verificada = False\<rparr>"

definition db_resenas :: db where
  "db_resenas =
     db_ejemplo\<lparr>usuarios := [1, 2, 3, 4],
                resenas := [resena_de 1 5, resena_de 2 5, resena_de 3 4, resena_de 4 3]\<rparr>"

definition db_sin_carts :: db where
  "db_sin_carts = db_ejemplo\<lparr>carts := [], cart_items := []\<rparr>"

section \<open>Properties\<close>

subsection \<open>Queries\<close>

lemma first_index_Some:
  "first_index P xs = Some i \<Longrightarrow> i < length xs \<and> P (xs ! i) \<and> (\<forall>j<i. \<not> P (xs ! j))"
proof (induction xs arbitrary: i)
  case Nil
  then show ?case by simp
next
  case (Cons x xs)
  show ?case
  proof (cases "P x")
    case True
    with Cons.prems show ?thesis by simp
  next
    case False
    with Cons.prems obtain k where k: "first_index P xs = Some k" and i: "i = Suc k"
      by auto
    from Cons.IH [OF k] have "k < length xs" "P (xs ! k)" "\<forall>j<k. \<not> P (xs ! j)"
      by simp_all
    with False i show ?thesis
      by (auto simp: nth_Cons split: nat.splits)
  qed
qed

lemma first_index_None: "first_index P xs = None \<longleftrightarrow> (\<forall>x\<in>set xs. \<not> P x)"
  by (induction xs) auto

lemma first_row_Some: "first_row P xs = Some x \<Longrightarrow> x \<in> set xs \<and> P x"
  by (auto simp: first_row_def dest!: first_index_Some)


subsection \<open>Primary keys\<close>

lemma fold_max_ge: "a \<le> fold max ks (a::int)"
  by (induction ks arbitrary: a) (auto intro: order_trans [OF max.cobounded2])

lemma fold_max_mem: "k \<in> set ks \<Longrightarrow> k \<le> fold max ks (a::int)"
proof (induction ks arbitrary: a)
  case Nil
  then show ?case by simp
next
  case (Cons x xs)
  show ?case
  proof (cases "k = x")
    case True
    have "x \<le> max x a" by simp
    also have "\<dots> \<le> fold max xs (max x a)" by (rule fold_max_ge)
    finally show ?thesis using True by simp
  next
    case False
    with Cons.prems have "k \<in> set xs" by simp
    from Cons.IH [OF this] show ?thesis by simp
  qed
qed

lemma nuevo_id_fresh: "nuevo_id ks \<notin> set ks"
proof
  assume "nuevo_id ks \<in> set ks"
  from fold_max_mem [OF this, of 0] show False by (simp add: nuevo_id_def)
qed

subsection \<open>C10: a cart is looked up by the user alone and created with both identifiers\<close>

text \<open>
  C10. When \<^verbatim>\<open>obtener_o_crear_carrito\<close> is given both a user id and a session id (both
  truthy), the lookup is by the user id only: the answer is the first active cart of that
  user, whatever the session id is, and the database is left as it was. When the user has
  no active cart, the call creates one exactly when the database accepts the row (the
  user exists and the session id fits its column); the database gains that one cart,
  under a fresh key, and the cart is active and records both the user id and the session
  id. Otherwise the call returns \<^verbatim>\<open>None\<close> and changes nothing.
\<close>

theorem obtener_o_crear_carrito_both_ids:
  assumes "u \<noteq> 0" and "s \<noteq> []"
  shows "(case first_row (\<lambda>c. cart_activo c \<and> cart_usuario_id c = Some u) (carts d) of
            Some c \<Rightarrow> obtener_o_crear_carrito d (Some u) (Some s) = (Some c, d)
          | None \<Rightarrow>
              if existe_usuario d u \<and> length s \<le> 255
              then \<exists>c. obtener_o_crear_carrito d (Some u) (Some s)
                         = (Some c, d\<lparr>carts := carts d @ [c]\<rparr>) \<and>
                       cart_id c \<notin> set (map cart_id (carts d)) \<and> cart_activo c \<and>
                       cart_usuario_id c = Some u \<and> cart_session_id c = Some s
              else obtener_o_crear_carrito d (Some u) (Some s) = (None, d))"
  using assms nuevo_id_fresh [of "map cart_id (carts d)"]
  by (auto simp: obtener_o_crear_carrito_def fila_cart_valida_def Let_def split: option.splits)

theorem obtener_o_crear_carrito_both_ids_witness:
  "(7::int) \<noteq> 0 \<and> ''otra'' \<noteq> [] \<and>
   obtener_o_crear_carrito db_ejemplo (Some 7) (Some ''otra'')
     = (Some \<lparr>cart_id = 1, cart_usuario_id = Some 7, cart_session_id = Some ''s1'',
              cart_activo = True\<rparr>, db_ejemplo) \<and>
   (\<exists>c. obtener_o_crear_carrito db_sin_carts (Some 7) (Some ''otra'')
          = (Some c, db_sin_carts\<lparr>carts := carts db_sin_carts @ [c]\<rparr>) \<and>
        cart_usuario_id c = Some 7 \<and> cart_session_id c = Some ''otra'')"
  using obtener_o_crear_carrito_both_ids [of 7 "''otra''" db_ejemplo]
    obtener_o_crear_carrito_both_ids [of 7 "''otra''" db_sin_carts]
  by (auto simp: db_ejemplo_def db_sin_carts_def first_row_def existe_usuario_def)

subsection \<open>C3: a quantity that is not positive\<close>

text \<open>
  C3. The claim is that \<^verbatim>\<open>agregar_item_carrito\<close> fails for every quantity \<open>\<le> 0\<close> and
  changes no item. The function has no check of the sign of \<^verbatim>\<open>cantidad\<close> (its sibling
  \<^verbatim>\<open>actualizar_cantidad_item\<close> has one). In a cart that holds 5 units of a product
  with stock 10, adding \<open>-2\<close> passes both stock checks, the item is rewritten with
  quantity 3, which the \<^verbatim>\<open>CHECK (cantidad > 0)\<close> accepts, and the item is returned.
\<close>

theorem agregar_item_carrito_cantidad_negativa:
  "agregar_item_carrito db_ejemplo 1 1 (- 2)
     = (Some \<lparr>item_id = 1, item_cart_id = 1, item_producto_id = 1, item_cantidad = 3,
              item_precio_unitario = 5000\<rparr>,
        db_ejemplo\<lparr>cart_items := [\<lparr>item_id = 1, item_cart_id = 1, item_producto_id = 1,
                                    item_cantidad = 3, item_precio_unitario = 5000\<rparr>]\<rparr>)"
  by (simp add: agregar_item_carrito_def db_ejemplo_def get_cart_def get_producto_def
      first_row_def fila_item_valida_def Let_def)

subsection \<open>C5: not enough stock for the merged quantity\<close>




subsection \<open>C4: the quantity is summed into the item, or a new item freezes the price\<close>

lemma first_index_append_last:
  "\<forall>x\<in>set xs. \<not> P x \<Longrightarrow> P y \<Longrightarrow> first_index P (xs @ [y]) = Some (length xs)"
  by (induction xs) auto

lemma agregar_item_carrito_Some:
  assumes "agregar_item_carrito d cid pid cantidad = (Some item, d')"
  shows "case first_index (\<lambda>r. item_cart_id r = cid \<and> item_producto_id r = pid)
                (cart_items d) of
           Some i \<Rightarrow>
             item = (cart_items d ! i)\<lparr>item_cantidad :=
                       item_cantidad (cart_items d ! i) + cantidad\<rparr> \<and>
             d' = d\<lparr>cart_items := (cart_items d)[i := item]\<rparr>
         | None \<Rightarrow>
             (\<exists>p. get_producto d pid = Some p \<and>
                  item_precio_unitario item = prod_precio_centavos p) \<and>
             item_cart_id item = cid \<and> item_producto_id item = pid \<and>
             item_cantidad item = cantidad \<and>
             item_id item \<notin> set (map item_id (cart_items d)) \<and>
             d' = d\<lparr>cart_items := cart_items d @ [item]\<rparr>"
  using assms nuevo_id_fresh [of "map item_id (cart_items d)"]
  by (auto simp: agregar_item_carrito_def Let_def split: option.splits if_splits)

lemma agregar_item_carrito_dos_veces:
  assumes c: "get_cart d cid = Some c" and p: "get_producto d pid = Some p"
    and a: "prod_activo p" and st: "5 \<le> prod_stock p"
    and pr: "0 \<le> prod_precio_centavos p" "prod_precio_centavos p \<le> 9223372036854775807"
    and empty: "\<forall>r\<in>set (cart_items d). item_cart_id r \<noteq> cid"
  shows "\<exists>i1 d1 i2 d2.
           agregar_item_carrito d cid pid 2 = (Some i1, d1) \<and>
           agregar_item_carrito d1 cid pid 3 = (Some i2, d2) \<and>
           filter (\<lambda>r. item_cart_id r = cid) (cart_items d2) = [i2] \<and>
           item_producto_id i2 = pid \<and> item_cantidad i2 = 5"
proof -
  let ?P = "\<lambda>r. item_cart_id r = cid \<and> item_producto_id r = pid"
  define i1 where "i1 = \<lparr>item_id = nuevo_id (map item_id (cart_items d)), item_cart_id = cid,
                         item_producto_id = pid, item_cantidad = 2,
                         item_precio_unitario = prod_precio_centavos p\<rparr>"
  define d1 where "d1 = d\<lparr>cart_items := cart_items d @ [i1]\<rparr>"
  define i2 where "i2 = i1\<lparr>item_cantidad := 5\<rparr>"
  define d2 where "d2 = d1\<lparr>cart_items := cart_items d @ [i2]\<rparr>"
  from empty have none: "first_index ?P (cart_items d) = None"
    by (simp add: first_index_None)
  have v1: "fila_item_valida i1" and v2: "fila_item_valida i2"
    using pr by (simp_all add: fila_item_valida_def i1_def i2_def)
  have s1: "agregar_item_carrito d cid pid 2 = (Some i1, d1)"
    using c p a st none v1
    by (simp add: agregar_item_carrito_def Let_def i1_def [symmetric] d1_def)
  have idx: "first_index ?P (cart_items d1) = Some (length (cart_items d))"
    unfolding d1_def using empty
    by (simp add: first_index_append_last i1_def)
  have g: "get_cart d1 cid = Some c" "get_producto d1 pid = Some p"
    using c p by (simp_all add: d1_def get_cart_def get_producto_def)
  have q1: "item_cantidad i1 = 2" by (simp add: i1_def)
  have s2: "agregar_item_carrito d1 cid pid 3 = (Some i2, d2)"
    using g a st idx v2
    by (simp add: agregar_item_carrito_def Let_def d1_def d2_def i2_def q1)
  have f: "filter (\<lambda>r. item_cart_id r = cid) (cart_items d2) = [i2]"
    using empty by (simp add: d2_def i2_def i1_def filter_empty_conv)
  have "item_producto_id i2 = pid" "item_cantidad i2 = 5"
    by (simp_all add: i2_def i1_def)
  with s1 s2 f show ?thesis by blast
qed

text \<open>
  C4. A successful \<^verbatim>\<open>agregar_item_carrito\<close> does one of two things. If the cart already
  has a row for the product, that row (the first one) gets its quantity increased by the
  requested quantity, every other row and the number of rows stay as they were, and the
  row is returned. Otherwise one row is appended, under a fresh key, for that cart and
  product, with the requested quantity and with \<^verbatim>\<open>precio_unitario\<close> equal to the
  \<^verbatim>\<open>precio_centavos\<close> of the product. In particular, for a cart without items and an
  active product with stock at least 5 and a price that the column accepts, adding 2 and
  then 3 both succeed and leave the cart with exactly one item, of quantity 5.
\<close>

theorem agregar_item_carrito_suma_o_inserta:
  "(agregar_item_carrito d cid pid cantidad = (Some item, d') \<longrightarrow>
      (case first_index (\<lambda>r. item_cart_id r = cid \<and> item_producto_id r = pid)
              (cart_items d) of
         Some i \<Rightarrow>
           item = (cart_items d ! i)\<lparr>item_cantidad :=
                     item_cantidad (cart_items d ! i) + cantidad\<rparr> \<and>
           d' = d\<lparr>cart_items := (cart_items d)[i := item]\<rparr>
       | None \<Rightarrow>
           (\<exists>p. get_producto d pid = Some p \<and>
                item_precio_unitario item = prod_precio_centavos p) \<and>
           item_cart_id item = cid \<and> item_producto_id item = pid \<and>
           item_cantidad item = cantidad \<and>
           item_id item \<notin> set (map item_id (cart_items d)) \<and>
           d' = d\<lparr>cart_items := cart_items d @ [item]\<rparr>)) \<and>
   (get_cart d cid = Some c \<and> get_producto d pid = Some p \<and> prod_activo p \<and>
    5 \<le> prod_stock p \<and> 0 \<le> prod_precio_centavos p \<and>
    prod_precio_centavos p \<le> 9223372036854775807 \<and>
    (\<forall>r\<in>set (cart_items d). item_cart_id r \<noteq> cid) \<longrightarrow>
      (\<exists>i1 d1 i2 d2.
          agregar_item_carrito d cid pid 2 = (Some i1, d1) \<and>
          agregar_item_carrito d1 cid pid 3 = (Some i2, d2) \<and>
          filter (\<lambda>r. item_cart_id r = cid) (cart_items d2) = [i2] \<and>
          item_producto_id i2 = pid \<and> item_cantidad i2 = 5))"
  using agregar_item_carrito_Some [of d cid pid cantidad item d']
    agregar_item_carrito_dos_veces [of d cid c pid p]
  by blast

theorem agregar_item_carrito_suma_o_inserta_witness:
  "agregar_item_carrito db_ejemplo 1 1 3
     = (Some \<lparr>item_id = 1, item_cart_id = 1, item_producto_id = 1, item_cantidad = 8,
              item_precio_unitario = 5000\<rparr>,
        db_ejemplo\<lparr>cart_items := [\<lparr>item_id = 1, item_cart_id = 1, item_producto_id = 1,
                                    item_cantidad = 8, item_precio_unitario = 5000\<rparr>]\<rparr>) \<and>
   (\<exists>i1 d1 i2 d2.
       agregar_item_carrito db_carrito_vacio 1 1 2 = (Some i1, d1) \<and>
       agregar_item_carrito d1 1 1 3 = (Some i2, d2) \<and>
       filter (\<lambda>r. item_cart_id r = 1) (cart_items d2) = [i2] \<and>
       item_producto_id i2 = 1 \<and> item_cantidad i2 = 5)"
proof -
  define it where "it = \<lparr>item_id = 1, item_cart_id = 1, item_producto_id = 1,
                         item_cantidad = 8, item_precio_unitario = 5000\<rparr>"
  have r: "agregar_item_carrito db_ejemplo 1 1 3
             = (Some it, db_ejemplo\<lparr>cart_items := [it]\<rparr>)"
    by (simp add: agregar_item_carrito_def db_ejemplo_def get_cart_def get_producto_def
        first_row_def fila_item_valida_def Let_def it_def)
  have i: "first_index (\<lambda>r. item_cart_id r = 1 \<and> item_producto_id r = 1)
             (cart_items db_ejemplo) = Some 0"
    by (simp add: db_ejemplo_def)
  from agregar_item_carrito_suma_o_inserta
         [of db_ejemplo 1 1 3 it "db_ejemplo\<lparr>cart_items := [it]\<rparr>"] r i
  have a: "it = (cart_items db_ejemplo ! 0)\<lparr>item_cantidad :=
                   item_cantidad (cart_items db_ejemplo ! 0) + 3\<rparr>"
    by simp
  have h: "get_cart db_carrito_vacio 1
             = Some \<lparr>cart_id = 1, cart_usuario_id = Some 7, cart_session_id = Some ''s1'',
                     cart_activo = True\<rparr>"
    "get_producto db_carrito_vacio 1
       = Some \<lparr>prod_id = 1, prod_activo = True, prod_stock = 10,
               prod_precio_centavos = 5000\<rparr>"
    "\<forall>r\<in>set (cart_items db_carrito_vacio). item_cart_id r \<noteq> 1"
    by (simp_all add: db_carrito_vacio_def db_ejemplo_def get_cart_def get_producto_def
        first_row_def)
  from agregar_item_carrito_suma_o_inserta
         [where d = db_carrito_vacio and cid = 1 and pid = 1
            and c = "\<lparr>cart_id = 1, cart_usuario_id = Some 7, cart_session_id = Some ''s1'',
                      cart_activo = True\<rparr>"
            and p = "\<lparr>prod_id = 1, prod_activo = True, prod_stock = 10,
                      prod_precio_centavos = 5000\<rparr>"] h
  have b: "\<exists>i1 d1 i2 d2.
       agregar_item_carrito db_carrito_vacio 1 1 2 = (Some i1, d1) \<and>
       agregar_item_carrito d1 1 1 3 = (Some i2, d2) \<and>
       filter (\<lambda>r. item_cart_id r = 1) (cart_items d2) = [i2] \<and>
       item_producto_id i2 = 1 \<and> item_cantidad i2 = 5"
    by simp
  from r b show ?thesis by (simp add: it_def)
qed

subsection \<open>C2: the quantity of an item and the stock of its product\<close>

lemma agregar_item_carrito_respeta_stock:
  assumes "agregar_item_carrito d cid pid cantidad = (Some item, d')"
    and "get_producto d pid = Some p"
  shows "item_cantidad item \<le> prod_stock p"
  using assms
  by (auto simp: agregar_item_carrito_def Let_def split: option.splits if_splits)

lemma actualizar_cantidad_item_respeta_stock:
  assumes "actualizar_cantidad_item d iid cantidad = Inr (Some item, d')"
  shows "\<exists>p. get_producto d (item_producto_id item) = Some p \<and>
             item_cantidad item \<le> prod_stock p"
  using assms
  by (auto simp: actualizar_cantidad_item_def Let_def split: option.splits if_splits)

text \<open>
  C2. The claim is that after every successful operation that writes an item, the
  migration included, the quantity of the item is at most the stock of its product.
  \<^verbatim>\<open>agregar_item_carrito\<close> and \<^verbatim>\<open>actualizar_cantidad_item\<close> compare with the stock before
  they write (the two lemmas above); \<^verbatim>\<open>migrar_carrito_sesion_a_usuario\<close> sums the
  quantities and never reads the stock. With a stock of 5, a user cart holding 4 and a
  session cart holding 3 of the same product, the migration succeeds and leaves the item
  of the user cart with quantity 7.
\<close>

theorem migrar_carrito_supera_stock:
  "migrar_carrito_sesion_a_usuario db_sobre_stock ''s2'' 7
     = (True, db_sobre_stock\<lparr>
          carts := [\<lparr>cart_id = 1, cart_usuario_id = Some 7, cart_session_id = None,
                     cart_activo = True\<rparr>,
                    \<lparr>cart_id = 2, cart_usuario_id = None, cart_session_id = Some ''s2'',
                     cart_activo = False\<rparr>],
          cart_items := [\<lparr>item_id = 1, item_cart_id = 1, item_producto_id = 1,
                          item_cantidad = 7, item_precio_unitario = 5000\<rparr>,
                         \<lparr>item_id = 2, item_cart_id = 2, item_producto_id = 1,
                          item_cantidad = 3, item_precio_unitario = 5000\<rparr>]\<rparr>) \<and>
   map_option prod_stock (get_producto db_sobre_stock 1) = Some 5"
  by (simp add: migrar_carrito_sesion_a_usuario_def db_sobre_stock_def posiciones_items_def
      carrito_destino_def first_row_def get_producto_def fila_item_valida_def Let_def upt_rec)

subsection \<open>C7: creating a review\<close>










section \<open>Properties of the floats\<close>

subsection \<open>Powers of two and the binary logarithm\<close>

lemma pow2_powi: "pow2 e = 2 powi e"
  by (simp add: pow2_def power_int_def inverse_eq_divide power_one_over)

lemma pow2_pos: "0 < pow2 e"
  by (simp add: pow2_powi)

lemma pow2_add: "pow2 (a + b) = pow2 a * pow2 b"
  by (simp add: pow2_powi power_int_add)

lemma pow2_mono: "a \<le> b \<Longrightarrow> pow2 a \<le> pow2 b"
  by (simp add: pow2_powi power_int_increasing)

lemma pow2_strict_mono: "a < b \<Longrightarrow> pow2 a < pow2 b"
  by (simp add: pow2_powi power_int_strict_increasing)

lemma pow2_less_iff: "pow2 a < pow2 b \<longleftrightarrow> a < b"
proof
  assume l: "pow2 a < pow2 b"
  show "a < b"
  proof (rule ccontr)
    assume "\<not> a < b"
    then have "b \<le> a" by simp
    from pow2_mono [OF this] l show False by simp
  qed
next
  assume "a < b"
  then show "pow2 a < pow2 b" by (rule pow2_strict_mono)
qed

lemma pow2_nat: "0 \<le> e \<Longrightarrow> pow2 e = 2 ^ nat e"
  by (simp add: pow2_def)

lemma bitlen_nonneg: "0 \<le> bitlen n"
  by (induction n rule: bitlen.induct) (subst bitlen.simps, simp)

lemma bitlen_bounds:
  "0 < n \<Longrightarrow> 1 \<le> bitlen n \<and> 2 ^ nat (bitlen n - 1) \<le> n \<and> n < 2 ^ nat (bitlen n)"
proof (induction n rule: bitlen.induct)
  case (1 n)
  show ?case
  proof (cases "n div 2 = 0")
    case True
    with "1.prems" have n: "n = 1" by presburger
    have "bitlen 1 = 1"
      by (subst bitlen.simps) (simp add: bitlen.simps [of 0])
    with n show ?thesis by simp
  next
    case False
    with "1.prems" have pos: "0 < n div 2" by presburger
    from "1.IH" "1.prems" pos
    have ih: "1 \<le> bitlen (n div 2)" "2 ^ nat (bitlen (n div 2) - 1) \<le> n div 2"
      "n div 2 < 2 ^ nat (bitlen (n div 2))"
      by simp_all
    have b: "bitlen n = 1 + bitlen (n div 2)"
      using "1.prems" by (subst bitlen.simps) simp
    have e1: "nat (bitlen n - 1) = Suc (nat (bitlen (n div 2) - 1))"
      using ih(1) b by simp
    have e2: "nat (bitlen n) = Suc (nat (bitlen (n div 2)))"
      using ih(1) b by simp
    have "2 * 2 ^ nat (bitlen (n div 2) - 1) \<le> n"
      using ih(2) by presburger
    moreover have "n < 2 * 2 ^ nat (bitlen (n div 2))"
      using ih(3) by presburger
    ultimately show ?thesis using b ih(1) e1 e2 by simp
  qed
qed


lemma quotient_of_pos:
  assumes "0 < x" and "quotient_of x = (a, b)"
  shows "0 < a" "0 < b" "x = of_int a / of_int b"
proof -
  from assms(2) show b: "0 < b" by (rule quotient_of_denom_pos)
  from assms(2) show x: "x = of_int a / of_int b" by (simp add: quotient_of_div)
  from assms(1) x b show "0 < a" by (simp add: zero_less_divide_iff)
qed

lemma ilog2_bounds:
  assumes "0 < x"
  shows "pow2 (ilog2 x) \<le> x" and "x < pow2 (ilog2 x + 1)"
proof -
  obtain a b where q: "quotient_of x = (a, b)" by (cases "quotient_of x")
  from quotient_of_pos [OF assms q] have a: "0 < a" and b: "0 < b"
    and x: "x = of_int a / of_int b" by simp_all
  define k where "k = bitlen a - bitlen b"
  from bitlen_bounds [OF a] have la: "1 \<le> bitlen a" "2 ^ nat (bitlen a - 1) \<le> a"
    "a < 2 ^ nat (bitlen a)" by simp_all
  from bitlen_bounds [OF b] have lb: "1 \<le> bitlen b" "2 ^ nat (bitlen b - 1) \<le> b"
    "b < 2 ^ nat (bitlen b)" by simp_all
  have ra: "pow2 (bitlen a - 1) \<le> of_int a" "of_int a < pow2 (bitlen a)"
  proof -
    have "(of_int (2 ^ nat (bitlen a - 1)) :: rat) \<le> of_int a"
      using la(2) by (simp only: of_int_le_iff)
    then show "pow2 (bitlen a - 1) \<le> of_int a" using la(1) by (simp add: pow2_nat)
    have "(of_int a :: rat) < of_int (2 ^ nat (bitlen a))"
      using la(3) by (simp only: of_int_less_iff)
    then show "of_int a < pow2 (bitlen a)" using la(1) by (simp add: pow2_nat)
  qed
  have rb: "pow2 (bitlen b - 1) \<le> of_int b" "of_int b < pow2 (bitlen b)"
  proof -
    have "(of_int (2 ^ nat (bitlen b - 1)) :: rat) \<le> of_int b"
      using lb(2) by (simp only: of_int_le_iff)
    then show "pow2 (bitlen b - 1) \<le> of_int b" using lb(1) by (simp add: pow2_nat)
    have "(of_int b :: rat) < of_int (2 ^ nat (bitlen b))"
      using lb(3) by (simp only: of_int_less_iff)
    then show "of_int b < pow2 (bitlen b)" using lb(1) by (simp add: pow2_nat)
  qed
  have bpos: "(0::rat) < of_int b" using b by simp
  \<comment> \<open>\<open>2^(k-1) < x < 2^(k+1)\<close>\<close>
  have lo: "pow2 (k - 1) < x"
  proof -
    have "pow2 (k - 1) * of_int b < pow2 (k - 1) * pow2 (bitlen b)"
      using rb(2) pow2_pos [of "k - 1"] by simp
    also have "\<dots> = pow2 (bitlen a - 1)"
      by (simp add: k_def flip: pow2_add)
    also have "\<dots> \<le> of_int a" by (rule ra(1))
    finally show ?thesis using bpos by (simp add: x pos_less_divide_eq)
  qed
  have hi: "x < pow2 (k + 1)"
  proof -
    have "of_int a < pow2 (bitlen a)" by (rule ra(2))
    also have "\<dots> = pow2 (k + 1) * pow2 (bitlen b - 1)"
      by (simp add: k_def flip: pow2_add)
    also have "\<dots> \<le> pow2 (k + 1) * of_int b"
      using rb(1) pow2_pos [of "k + 1"] by simp
    finally show ?thesis using bpos by (simp add: x pos_divide_less_eq)
  qed
  have i: "ilog2 x = (if pow2 k \<le> x then k else k - 1)"
    by (simp add: ilog2_def q k_def Let_def)
  show "pow2 (ilog2 x) \<le> x"
    using lo by (simp add: i)
  show "x < pow2 (ilog2 x + 1)"
    using hi by (simp add: i not_le)
qed

lemma ilog2_eqI:
  assumes "pow2 k \<le> x" and "x < pow2 (k + 1)"
  shows "ilog2 x = k"
proof -
  from assms(1) pow2_pos [of k] have pos: "0 < x" by simp
  from ilog2_bounds [OF pos] have b: "pow2 (ilog2 x) \<le> x" "x < pow2 (ilog2 x + 1)" .
  from assms(1) b(2) have "pow2 k < pow2 (ilog2 x + 1)" by simp
  then have 1: "k < ilog2 x + 1" by (simp add: pow2_less_iff)
  from b(1) assms(2) have "pow2 (ilog2 x) < pow2 (k + 1)" by simp
  then have 2: "ilog2 x < k + 1" by (simp add: pow2_less_iff)
  from 1 2 show ?thesis by simp
qed

lemma round_half_even_error: "\<bar>of_int (round_half_even x) - x\<bar> \<le> 1 / 2"
proof -
  have "of_int \<lfloor>x\<rfloor> \<le> x" "x < of_int \<lfloor>x\<rfloor> + 1" by linarith+
  then show ?thesis
    by (auto simp: round_half_even_def Let_def)
qed

lemma round_half_even_of_int [simp]: "round_half_even (of_int n) = n"
  by (simp add: round_half_even_def)

lemma rd_eval:
  assumes "pow2 k \<le> \<bar>x\<bar>" and "\<bar>x\<bar> < pow2 (k + 1)" and "e = max (k - 52) (- 1074)"
  shows "rd x = of_int (round_half_even (x / pow2 e)) * pow2 e"
proof -
  from assms(1) pow2_pos [of k] have "x \<noteq> 0" by auto
  moreover have "ilog2 \<bar>x\<bar> = k" using assms(1,2) by (rule ilog2_eqI)
  ultimately show ?thesis by (simp add: rd_def Let_def assms(3))
qed

lemma rd_error: "\<bar>rd x - x\<bar> \<le> (\<bar>x\<bar> + 1) / 2 ^ 53"
proof (cases "x = 0")
  case True
  then show ?thesis by (simp add: rd_def)
next
  case False
  define k where "k = ilog2 \<bar>x\<bar>"
  define e where "e = max (k - 52) (- 1074)"
  from False have pos: "0 < \<bar>x\<bar>" by simp
  from ilog2_bounds(1) [OF pos] have lo: "pow2 k \<le> \<bar>x\<bar>" by (simp add: k_def)
  have r: "rd x = of_int (round_half_even (x / pow2 e)) * pow2 e"
    using False by (simp add: rd_def Let_def k_def e_def)
  have "rd x - x = (of_int (round_half_even (x / pow2 e)) - x / pow2 e) * pow2 e"
    using pow2_pos [of e] by (simp add: r algebra_simps)
  then have "\<bar>rd x - x\<bar> = \<bar>of_int (round_half_even (x / pow2 e)) - x / pow2 e\<bar> * pow2 e"
    using pow2_pos [of e] by (simp add: abs_mult)
  also have "\<dots> \<le> 1 / 2 * pow2 e"
    using round_half_even_error [of "x / pow2 e"] pow2_pos [of e]
    by (intro mult_right_mono) simp_all
  also have "\<dots> = pow2 (e - 1)"
    using pow2_add [of "e - 1" 1] by (simp add: pow2_def [of 1])
  finally have b: "\<bar>rd x - x\<bar> \<le> pow2 (e - 1)" .
  have u: "pow2 (- 53) = 1 / 2 ^ 53" by (simp add: pow2_def)
  show ?thesis
  proof (cases "k - 52 \<le> - 1074")
    case True
    then have "e - 1 \<le> - 53" by (simp add: e_def)
    then have "pow2 (e - 1) \<le> pow2 (- 53)" by (rule pow2_mono)
    also have "\<dots> \<le> (\<bar>x\<bar> + 1) / 2 ^ 53"
      unfolding u by (rule divide_right_mono) simp_all
    finally show ?thesis using b by simp
  next
    case False
    then have "e = k - 52" by (simp add: e_def)
    then have "pow2 (e - 1) = pow2 k * pow2 (- 53)"
      by (simp flip: pow2_add)
    also have "\<dots> = pow2 k / 2 ^ 53" by (simp add: u)
    also have "\<dots> \<le> (\<bar>x\<bar> + 1) / 2 ^ 53"
      using lo by (intro divide_right_mono) simp_all
    finally show ?thesis using b by simp
  qed
qed

subsection \<open>Values that are floats, and evaluation\<close>

lemma rd_exact:
  assumes m: "\<bar>m\<bar> < 2 ^ 53" and e': "- 1074 \<le> e'"
  shows "rd (of_int m * pow2 e') = of_int m * pow2 e'"
proof (cases "m = 0")
  case True
  then show ?thesis by (simp add: rd_def)
next
  case False
  define x where "x = (of_int m :: rat) * pow2 e'"
  define k where "k = ilog2 \<bar>x\<bar>"
  define e where "e = max (k - 52) (- 1074)"
  have ax: "\<bar>x\<bar> = of_int \<bar>m\<bar> * pow2 e'"
    using pow2_pos [of e'] by (simp add: x_def abs_mult)
  from False have pos: "0 < \<bar>x\<bar>"
    using pow2_pos [of e'] by (simp add: x_def)
  from ilog2_bounds(1) [OF pos] have lo: "pow2 k \<le> \<bar>x\<bar>" by (simp add: k_def)
  have "(of_int \<bar>m\<bar> :: rat) < of_int (2 ^ 53)"
    using m by (simp only: of_int_less_iff)
  then have "(of_int \<bar>m\<bar> :: rat) < pow2 53" by (simp add: pow2_def)
  then have "\<bar>x\<bar> < pow2 53 * pow2 e'"
    unfolding ax using pow2_pos [of e'] by (simp only: mult_strict_right_mono)
  with lo have "pow2 k < pow2 (53 + e')" by (simp add: pow2_add)
  then have "k < 53 + e'" by (simp add: pow2_less_iff)
  with e' have le: "e \<le> e'" by (simp add: e_def)
  define j where "j = nat (e' - e)"
  have p: "pow2 e' = of_int (2 ^ j) * pow2 e"
  proof -
    have "pow2 e' = pow2 (e' - e) * pow2 e" by (simp flip: pow2_add)
    also have "pow2 (e' - e) = of_int (2 ^ j)" using le by (simp add: pow2_def j_def)
    finally show ?thesis .
  qed
  have "x / pow2 e = of_int (m * 2 ^ j)"
    using pow2_pos [of e] by (simp add: x_def p)
  then have "round_half_even (x / pow2 e) = m * 2 ^ j"
    by (simp only: round_half_even_of_int)
  moreover have "x \<noteq> 0" using pos by simp
  ultimately have "rd x = of_int (m * 2 ^ j) * pow2 e"
    by (simp add: rd_def Let_def k_def e_def)
  also have "\<dots> = x" by (simp add: x_def p)
  finally show ?thesis by (simp add: x_def)
qed

lemma rd_of_int: "\<bar>n\<bar> < 2 ^ 53 \<Longrightarrow> rd (of_int n) = of_int n"
  using rd_exact [of n 0] by (simp add: pow2_def)

lemma fin_eqI: "rd x = y \<Longrightarrow> \<bar>y\<bar> < 2 ^ 1024 \<Longrightarrow> fin x = Some y"
  by (simp add: fin_def)

lemma round_half_even_eqI:
  assumes "\<bar>x - of_int n\<bar> < 1 / 2"
  shows "round_half_even x = n"
proof -
  have f: "of_int \<lfloor>x\<rfloor> \<le> x" "x < of_int \<lfloor>x\<rfloor> + 1" by linarith+
  from assms have a: "of_int n - 1 / 2 < x" "x < of_int n + 1 / 2" by linarith+
  have "\<lfloor>x\<rfloor> = n \<or> \<lfloor>x\<rfloor> = n - 1"
  proof -
    from a(1) f(2) have "(of_int n :: rat) < of_int \<lfloor>x\<rfloor> + 2" by linarith
    then have "(of_int n :: rat) < of_int (\<lfloor>x\<rfloor> + 2)" by simp
    then have 1: "n < \<lfloor>x\<rfloor> + 2" by (simp only: of_int_less_iff)
    from a(2) f(1) have "(of_int \<lfloor>x\<rfloor> :: rat) < of_int n + 1" by linarith
    then have "(of_int \<lfloor>x\<rfloor> :: rat) < of_int (n + 1)" by simp
    then have 2: "\<lfloor>x\<rfloor> < n + 1" by (simp only: of_int_less_iff)
    from 1 2 show ?thesis by linarith
  qed
  then show ?thesis
  proof
    assume "\<lfloor>x\<rfloor> = n"
    with a show ?thesis by (simp add: round_half_even_def Let_def)
  next
    assume "\<lfloor>x\<rfloor> = n - 1"
    with a show ?thesis by (simp add: round_half_even_def Let_def)
  qed
qed

lemma round_half_even_tie:
  assumes "x = of_int n + 1 / 2"
  shows "round_half_even x = (if even n then n else n + 1)"
proof -
  have "\<lfloor>x\<rfloor> = n" unfolding assms by (simp add: floor_unique)
  then show ?thesis by (simp add: round_half_even_def Let_def assms)
qed

lemma rd_eqI:
  assumes "pow2 k \<le> \<bar>x\<bar>" and "\<bar>x\<bar> < pow2 (k + 1)" and "e = max (k - 52) (- 1074)"
    and "\<bar>x / pow2 e - of_int n\<bar> < 1 / 2"
  shows "rd x = of_int n * pow2 e"
  using rd_eval [OF assms(1-3)] round_half_even_eqI [OF assms(4)] by simp

subsection \<open>Floats of given numbers\<close>

lemma fin_of_int: "\<bar>n\<bar> < 2 ^ 53 \<Longrightarrow> fin (of_int n) = Some (of_int n)"
proof -
  assume a: "\<bar>n\<bar> < 2 ^ 53"
  then have "\<bar>n\<bar> < 2 ^ 1024" by (rule less_trans) simp
  then have "(of_int \<bar>n\<bar> :: rat) < of_int (2 ^ 1024)" by (simp only: of_int_less_iff)
  then have "\<bar>of_int n :: rat\<bar> < 2 ^ 1024" by simp
  with rd_of_int [OF a] show ?thesis by (simp add: fin_def)
qed

lemma fin_0: "fin 0 = Some 0"
  using fin_of_int [of 0] by simp

lemma fin_numeral: "numeral w < (2 ^ 53 :: int) \<Longrightarrow> fin (numeral w) = Some (numeral w)"
  using fin_of_int [of "numeral w"] by simp

lemma fin_17_4: "fin (17 / 4) = Some (17 / 4)"
  using rd_exact [of 17 "- 2"] by (simp add: pow2_def fin_def)

lemma fin_1_4: "fin (1 / 4) = Some (1 / 4)"
  using rd_exact [of 1 "- 2"] by (simp add: pow2_def fin_def)

lemma fin_1_2: "fin (1 / 2) = Some (1 / 2)"
  using rd_exact [of 1 "- 1"] by (simp add: pow2_def fin_def)

lemma round_half_even_0: "round_half_even 0 = 0"
  using round_half_even_of_int [of 0] by simp

lemma round_half_even_numeral: "round_half_even (numeral w) = numeral w"
  using round_half_even_of_int [of "numeral w"] by simp

lemma round_half_even_85_2: "round_half_even (85 / 2) = 42"
  using round_half_even_tie [of "85 / 2" 42] by simp

lemma fin_4_2: "fin (21 / 5) = Some (4728779608739021 / 1125899906842624)"
  using rd_eqI [of 2 "21 / 5" "- 50" 4728779608739021] by (simp add: pow2_def fin_def)

lemma fin_4_3: "fin (43 / 10) = Some (4841369599423283 / 1125899906842624)"
  using rd_eqI [of 2 "43 / 10" "- 50" 4841369599423283] by (simp add: pow2_def fin_def)

lemma rd_abs_le: "\<bar>rd x\<bar> \<le> \<bar>x\<bar> + (\<bar>x\<bar> + 1) / 2 ^ 53"
  using rd_error [of x] by linarith

lemma fin_Some:
  assumes "\<bar>x\<bar> \<le> 2 ^ 1000"
  shows "fin x = Some (rd x)"
proof -
  have "\<bar>rd x\<bar> \<le> \<bar>x\<bar> + (\<bar>x\<bar> + 1) / 2 ^ 53" by (rule rd_abs_le)
  also have "\<dots> \<le> 2 ^ 1000 + (2 ^ 1000 + 1) / 2 ^ 53"
    using assms by (intro add_mono divide_right_mono) simp_all
  also have "\<dots> < 2 ^ 1024" by simp
  finally show ?thesis by (simp add: fin_def)
qed

lemma py_round1_Some:
  assumes "\<bar>x\<bar> \<le> 2 ^ 990"
  shows "\<exists>t. py_round1 (Some x) = fin (of_int t / 10) \<and> fin (of_int t / 10) \<noteq> None \<and>
             \<bar>of_int t / 10 - x\<bar> \<le> 1 / 20"
proof -
  define t where "t = round_half_even (x * 10)"
  have e: "\<bar>of_int t - x * 10\<bar> \<le> 1 / 2"
    unfolding t_def by (rule round_half_even_error)
  then have b: "\<bar>of_int t / 10 - x\<bar> \<le> 1 / 20" by linarith
  then have "\<bar>of_int t / 10 :: rat\<bar> \<le> \<bar>x\<bar> + 1" by linarith
  also have "\<dots> \<le> 2 ^ 990 + 1" using assms by simp
  also have "\<dots> \<le> 2 ^ 1000" by simp
  finally have "fin (of_int t / 10) = Some (rd (of_int t / 10))" by (rule fin_Some)
  then have f: "fin (of_int t / 10) \<noteq> None" by simp
  have p: "py_round1 (Some x) = fin (of_int t / 10)" by (simp add: py_round1_def t_def)
  from p f b show ?thesis by blast
qed

section \<open>Properties of the statistics\<close>

subsection \<open>C8: the statistics of the ratings 5, 5, 4, 3\<close>

lemma estadisticas_db_resenas_eval:
  "obtener_estadisticas_producto db_resenas 1
     = Inr \<lparr>e_total = 4, e_promedio = fin (42 / 10),
            e_distribucion = [(1, 0), (2, 0), (3, 1), (4, 1), (5, 2)],
            e_porcentajes = Some [(1, Some 0), (2, Some 0), (3, Some 25), (4, Some 25),
                                  (5, Some 50)]\<rparr>"
  by (simp add: obtener_estadisticas_producto_def db_resenas_def resena_de_def db_ejemplo_def
      distribucion_cero_def Let_def py_round1_def fmul_def
      fin_0 fin_numeral fin_17_4 fin_1_4 fin_1_2 round_half_even_0 round_half_even_numeral
      round_half_even_85_2)

text \<open>
  C8, as the code has it. For a product whose reviews have the ratings 5, 5, 4 and 3,
  \<^verbatim>\<open>obtener_estadisticas_producto\<close> returns the total 4, the average 4.2 (the float
  nearest to 4.2), the distribution 0, 0, 1, 1, 2 over the ratings 1 to 5 and the
  percentages 0.0, 0.0, 25.0, 25.0, 50.0. The quotient 17 / 4 is the float 4.25 exactly,
  and \<^verbatim>\<open>round(4.25, 1)\<close> resolves the tie towards the even digit.
\<close>

theorem estadisticas_5_5_4_3:
  "obtener_estadisticas_producto db_resenas 1
     = Inr \<lparr>e_total = 4, e_promedio = fin (42 / 10),
            e_distribucion = [(1, 0), (2, 0), (3, 1), (4, 1), (5, 2)],
            e_porcentajes = Some [(1, Some 0), (2, Some 0), (3, Some 25), (4, Some 25),
                                  (5, Some 50)]\<rparr>"
  by (rule estadisticas_db_resenas_eval)

text \<open>
  C8, as the claim states it: the same result with the average 4.3 (the float nearest to
  4.3). The code does not return it.
\<close>

theorem estadisticas_promedio_no_4_3:
  "obtener_estadisticas_producto db_resenas 1
     \<noteq> Inr \<lparr>e_total = 4, e_promedio = fin (43 / 10),
            e_distribucion = [(1, 0), (2, 0), (3, 1), (4, 1), (5, 2)],
            e_porcentajes = Some [(1, Some 0), (2, Some 0), (3, Some 25), (4, Some 25),
                                  (5, Some 50)]\<rparr>"
  by (simp add: estadisticas_db_resenas_eval fin_4_2 fin_4_3)

subsection \<open>C9: the statistics of any product\<close>

lemma sum_list_calificaciones:
  "\<forall>x\<in>set xs. 1 \<le> x \<and> x \<le> (5::int) \<Longrightarrow>
   int (length xs) \<le> sum_list xs \<and> sum_list xs \<le> 5 * int (length xs)"
  by (induction xs) auto

lemma contar_calificaciones:
  "\<forall>k\<in>set ks. 1 \<le> k \<and> k \<le> (5::int) \<Longrightarrow>
   contar ks [(1, a), (2, b), (3, c), (4, d), (5, e)]
     = Some [(1, a + int (count_list ks 1)), (2, b + int (count_list ks 2)),
             (3, c + int (count_list ks 3)), (4, d + int (count_list ks 4)),
             (5, e + int (count_list ks 5))]"
proof (induction ks arbitrary: a b c d e)
  case Nil
  then show ?case by simp
next
  case (Cons k ks)
  from Cons.prems have "k = 1 \<or> k = 2 \<or> k = 3 \<or> k = 4 \<or> k = 5" by auto
  moreover from Cons.prems have r: "\<forall>k\<in>set ks. 1 \<le> k \<and> k \<le> 5" by simp
  ultimately show ?case
    by (elim disjE) (simp_all add: Cons.IH [OF r])
qed

lemma count_list_le_length: "count_list xs x \<le> length xs"
  by (induction xs) auto

lemma promedio_redondeado:
  assumes n: "0 < n" and s: "n \<le> s" "s \<le> 5 * n"
  shows "\<exists>x. fin (of_int s / of_int n) = Some x \<and>
           (\<exists>t. py_round1 (Some x) = fin (of_int t / 10) \<and> fin (of_int t / 10) \<noteq> None \<and>
                \<bar>of_int t / 10 - of_int s / of_int n :: rat\<bar> \<le> 1 / 20 + 1 / 2 ^ 50)"
proof -
  define q :: rat where "q = of_int s / of_int n"
  define u :: rat where "u = 1 / 2 ^ 50"
  have u: "0 \<le> u" "u \<le> 1" by (simp_all add: u_def)
  have q: "1 \<le> q" "q \<le> 5"
    using n s by (simp_all add: q_def pos_le_divide_eq pos_divide_le_eq flip: of_int_mult)
  then have "\<bar>q\<bar> \<le> 2 ^ 1000" by simp
  then have f: "fin q = Some (rd q)" by (rule fin_Some)
  have e: "\<bar>rd q - q\<bar> \<le> u"
  proof -
    have "\<bar>rd q - q\<bar> \<le> (\<bar>q\<bar> + 1) / 2 ^ 53" by (rule rd_error)
    also have "\<dots> \<le> 6 / 2 ^ 53" using q by (intro divide_right_mono) simp_all
    also have "\<dots> \<le> u" by (simp add: u_def)
    finally show ?thesis .
  qed
  with q u have "\<bar>rd q\<bar> \<le> 6" by linarith
  then have "\<bar>rd q\<bar> \<le> 2 ^ 990" by simp
  from py_round1_Some [OF this] obtain t where t: "py_round1 (Some (rd q)) = fin (of_int t / 10)"
    "fin (of_int t / 10) \<noteq> None" "\<bar>of_int t / 10 - rd q\<bar> \<le> 1 / 20" by blast
  from t(3) e have "\<bar>of_int t / 10 - q\<bar> \<le> 1 / 20 + u" by linarith
  with f t(1,2) show ?thesis unfolding q_def u_def by blast
qed

lemma porcentaje_redondeado:
  assumes n: "0 < n" and c: "0 \<le> c" "c \<le> n"
  shows "\<exists>t. py_round1 (fmul (fin (of_int c / of_int n)) (fin 100)) = fin (of_int t / 10) \<and>
             fin (of_int t / 10) \<noteq> None \<and>
             \<bar>of_int t / 10 - 100 * of_int c / of_int n :: rat\<bar> \<le> 1 / 20 + 1 / 2 ^ 40"
proof -
  define q :: rat where "q = of_int c / of_int n"
  define u :: rat where "u = 1 / 2 ^ 45"
  define v :: rat where "v = 1 / 2 ^ 40"
  have u: "0 \<le> u" "u \<le> 1 / 100" "2 * u \<le> v" by (simp_all add: u_def v_def)
  have q: "0 \<le> q" "q \<le> 1"
    using n c by (simp_all add: q_def pos_le_divide_eq pos_divide_le_eq)
  then have "\<bar>q\<bar> \<le> 2 ^ 1000" by simp
  then have f: "fin q = Some (rd q)" by (rule fin_Some)
  have h: "fin 100 = Some 100" using fin_of_int [of 100] by simp
  have e: "\<bar>rd q - q\<bar> \<le> u / 100"
  proof -
    have "\<bar>rd q - q\<bar> \<le> (\<bar>q\<bar> + 1) / 2 ^ 53" by (rule rd_error)
    also have "\<dots> \<le> 2 / 2 ^ 53" using q by (intro divide_right_mono) simp_all
    also have "\<dots> \<le> u / 100" by (simp add: u_def)
    finally show ?thesis .
  qed
  define y where "y = rd (rd q * 100)"
  from e q u have a: "\<bar>rd q * 100\<bar> \<le> 101" by linarith
  then have "\<bar>rd q * 100\<bar> \<le> 2 ^ 1000" by simp
  then have m: "fmul (fin q) (fin 100) = Some y"
    by (simp add: fmul_def f h y_def fin_Some)
  have e2: "\<bar>y - rd q * 100\<bar> \<le> u"
  proof -
    have "\<bar>y - rd q * 100\<bar> \<le> (\<bar>rd q * 100\<bar> + 1) / 2 ^ 53"
      unfolding y_def by (rule rd_error)
    also have "\<dots> \<le> 102 / 2 ^ 53" using a by (intro divide_right_mono) simp_all
    also have "\<dots> \<le> u" by (simp add: u_def)
    finally show ?thesis .
  qed
  from e2 a u have "\<bar>y\<bar> \<le> 102" by linarith
  then have "\<bar>y\<bar> \<le> 2 ^ 990" by simp
  from py_round1_Some [OF this] obtain t where t: "py_round1 (Some y) = fin (of_int t / 10)"
    "fin (of_int t / 10) \<noteq> None" "\<bar>of_int t / 10 - y\<bar> \<le> 1 / 20" by blast
  from t(3) e e2 u have "\<bar>of_int t / 10 - 100 * q\<bar> \<le> 1 / 20 + v" by linarith
  with m t(1,2) show ?thesis unfolding q_def v_def by auto
qed


lemma estadisticas_sin_resenas:
  assumes "calificaciones d pid = []"
  shows "obtener_estadisticas_producto d pid
           = Inr \<lparr>e_total = 0, e_promedio = Some 0,
                  e_distribucion = [(1, 0), (2, 0), (3, 0), (4, 0), (5, 0)],
                  e_porcentajes = None\<rparr>"
  using assms
  by (simp add: obtener_estadisticas_producto_def calificaciones_def distribucion_cero_def)

lemma estadisticas_con_resenas:
  assumes v: "\<forall>k\<in>set (calificaciones d pid). 1 \<le> k \<and> k \<le> 5"
    and ne: "calificaciones d pid \<noteq> []"
  shows "\<exists>x. fin (of_int (sum_list (calificaciones d pid))
                  / of_int (int (length (calificaciones d pid)))) = Some x \<and>
           obtener_estadisticas_producto d pid
             = Inr \<lparr>e_total = int (length (calificaciones d pid)),
                    e_promedio = py_round1 (Some x),
                    e_distribucion =
                      map (\<lambda>k. (k, int (count_list (calificaciones d pid) k))) [1, 2, 3, 4, 5],
                    e_porcentajes =
                      Some (map (\<lambda>k. (k, py_round1
                                  (fmul (fin (of_int (int (count_list (calificaciones d pid) k))
                                              / of_int (int (length (calificaciones d pid)))))
                                        (fin 100))))
                                [1, 2, 3, 4, 5])\<rparr>"
proof -
  let ?rs = "filter (\<lambda>r. res_producto_id r = pid) (resenas d)"
  let ?ks = "calificaciones d pid"
  have ks: "map res_calificacion ?rs = ?ks" by (simp add: calificaciones_def)
  have len: "length ?rs = length ?ks" by (simp add: calificaciones_def)
  from ne have rs: "?rs \<noteq> []" by (auto simp: calificaciones_def)
  from ne have n: "0 < int (length ?ks)" by simp
  from sum_list_calificaciones [OF v]
  have s: "int (length ?ks) \<le> sum_list ?ks" "sum_list ?ks \<le> 5 * int (length ?ks)"
    by simp_all
  from promedio_redondeado [OF n s] obtain x
    where x: "fin (of_int (sum_list ?ks) / of_int (int (length ?ks))) = Some x" by blast
  from contar_calificaciones [OF v, of 0 0 0 0 0]
  have c: "contar ?ks distribucion_cero
             = Some (map (\<lambda>k. (k, int (count_list ?ks k))) [1, 2, 3, 4, 5])"
    by (simp add: distribucion_cero_def)
  have "obtener_estadisticas_producto d pid
          = Inr \<lparr>e_total = int (length ?ks), e_promedio = py_round1 (Some x),
                 e_distribucion = map (\<lambda>k. (k, int (count_list ?ks k))) [1, 2, 3, 4, 5],
                 e_porcentajes =
                   Some (map (\<lambda>k. (k, py_round1
                               (fmul (fin (of_int (int (count_list ?ks k))
                                           / of_int (int (length ?ks))))
                                     (fin 100))))
                             [1, 2, 3, 4, 5])\<rparr>"
    unfolding obtener_estadisticas_producto_def Let_def ks len
    using rs x c by simp
  with x show ?thesis by blast
qed

text \<open>
  C9, as the code has it. Let the ratings of the reviews of the product lie in 1..5 (the
  \<^verbatim>\<open>CHECK\<close> of the table). Then \<^verbatim>\<open>obtener_estadisticas_producto\<close> returns a result, and
  no exception: the total is the number of reviews and the distribution gives, for each
  rating 1 to 5, the number of reviews with that rating (0 for an absent one). Without
  reviews the average is 0.0 and the result has no percentages. With reviews the average
  is the float nearest to a number \<open>t/10\<close> that lies within \<open>1/20 + 2^-50\<close> of the exact
  average, and there is a percentage for each rating 1 to 5, the float nearest to a
  number \<open>t/10\<close> within \<open>1/20 + 2^-40\<close> of the exact share of that rating in percent.
\<close>

theorem obtener_estadisticas_producto_general:
  assumes v: "\<forall>k\<in>set (calificaciones d pid). 1 \<le> k \<and> k \<le> 5"
  shows "\<exists>st. obtener_estadisticas_producto d pid = Inr st \<and>
           e_total st = int (length (calificaciones d pid)) \<and>
           e_distribucion st
             = map (\<lambda>k. (k, int (count_list (calificaciones d pid) k))) [1, 2, 3, 4, 5] \<and>
           (calificaciones d pid = [] \<longrightarrow> e_promedio st = Some 0 \<and> e_porcentajes st = None) \<and>
           (calificaciones d pid \<noteq> [] \<longrightarrow>
              (\<exists>t. e_promedio st = fin (of_int t / 10) \<and> fin (of_int t / 10) \<noteq> None \<and>
                   \<bar>of_int t / 10
                     - of_int (sum_list (calificaciones d pid))
                       / of_int (int (length (calificaciones d pid))) :: rat\<bar>
                     \<le> 1 / 20 + 1 / 2 ^ 50) \<and>
              (\<exists>pct. e_porcentajes st = Some (map (\<lambda>k. (k, pct k)) [1, 2, 3, 4, 5]) \<and>
                 (\<forall>k. \<exists>t. pct k = fin (of_int t / 10) \<and> fin (of_int t / 10) \<noteq> None \<and>
                      \<bar>of_int t / 10
                        - 100 * of_int (int (count_list (calificaciones d pid) k))
                          / of_int (int (length (calificaciones d pid))) :: rat\<bar>
                        \<le> 1 / 20 + 1 / 2 ^ 40)))"
proof (cases "calificaciones d pid = []")
  case True
  from estadisticas_sin_resenas [OF True] True show ?thesis by simp
next
  case False
  let ?ks = "calificaciones d pid"
  define pct where "pct k = py_round1 (fmul (fin (of_int (int (count_list ?ks k))
                                           / of_int (int (length ?ks)))) (fin 100))" for k
  from estadisticas_con_resenas [OF v False] obtain x
    where x: "fin (of_int (sum_list ?ks) / of_int (int (length ?ks))) = Some x"
    and st: "obtener_estadisticas_producto d pid
             = Inr \<lparr>e_total = int (length ?ks), e_promedio = py_round1 (Some x),
                    e_distribucion = map (\<lambda>k. (k, int (count_list ?ks k))) [1, 2, 3, 4, 5],
                    e_porcentajes = Some (map (\<lambda>k. (k, pct k)) [1, 2, 3, 4, 5])\<rparr>"
    unfolding pct_def by blast
  from False have n: "0 < int (length ?ks)" by simp
  from sum_list_calificaciones [OF v]
  have s: "int (length ?ks) \<le> sum_list ?ks" "sum_list ?ks \<le> 5 * int (length ?ks)"
    by simp_all
  from promedio_redondeado [OF n s] x
  have p: "\<exists>t. py_round1 (Some x) = fin (of_int t / 10) \<and> fin (of_int t / 10) \<noteq> None \<and>
               \<bar>of_int t / 10 - of_int (sum_list ?ks) / of_int (int (length ?ks)) :: rat\<bar>
                 \<le> 1 / 20 + 1 / 2 ^ 50"
    by simp
  have q: "\<forall>k. \<exists>t. pct k = fin (of_int t / 10) \<and> fin (of_int t / 10) \<noteq> None \<and>
               \<bar>of_int t / 10 - 100 * of_int (int (count_list ?ks k))
                                 / of_int (int (length ?ks)) :: rat\<bar>
                 \<le> 1 / 20 + 1 / 2 ^ 40"
  proof
    fix k
    have "int (count_list ?ks k) \<le> int (length ?ks)"
      using count_list_le_length [of ?ks k] by simp
    from porcentaje_redondeado [OF n _ this]
    show "\<exists>t. pct k = fin (of_int t / 10) \<and> fin (of_int t / 10) \<noteq> None \<and>
               \<bar>of_int t / 10 - 100 * of_int (int (count_list ?ks k))
                                 / of_int (int (length ?ks)) :: rat\<bar>
                 \<le> 1 / 20 + 1 / 2 ^ 40"
      unfolding pct_def by simp
  qed
  from st p q False show ?thesis by auto
qed

theorem obtener_estadisticas_producto_general_witness:
  "calificaciones db_resenas 1 = [5, 5, 4, 3] \<and>
   (\<exists>st. obtener_estadisticas_producto db_resenas 1 = Inr st \<and> e_total st = 4 \<and>
         e_distribucion st = [(1, 0), (2, 0), (3, 1), (4, 1), (5, 2)] \<and>
         e_porcentajes st \<noteq> None)"
proof -
  have c: "calificaciones db_resenas 1 = [5, 5, 4, 3]"
    by (simp add: calificaciones_def db_resenas_def resena_de_def)
  then have v: "\<forall>k\<in>set (calificaciones db_resenas 1). 1 \<le> k \<and> k \<le> 5" by simp
  from obtener_estadisticas_producto_general [OF v] obtain st
    where "obtener_estadisticas_producto db_resenas 1 = Inr st"
      "e_total st = int (length (calificaciones db_resenas 1))"
      "e_distribucion st
         = map (\<lambda>k. (k, int (count_list (calificaciones db_resenas 1) k))) [1, 2, 3, 4, 5]"
      "calificaciones db_resenas 1 \<noteq> [] \<longrightarrow> e_porcentajes st \<noteq> None"
    by auto
  then show ?thesis by (simp add: c)
qed

text \<open>
  C9, as the claim states it, promises the percentages for a product without reviews
  too. The database \<open>db_ejemplo\<close> has no review, and the result for its product 1 has
  the total, the average and the distribution only.
\<close>

theorem estadisticas_sin_resenas_sin_porcentajes:
  "obtener_estadisticas_producto db_ejemplo 1
     = Inr \<lparr>e_total = 0, e_promedio = Some 0,
            e_distribucion = [(1, 0), (2, 0), (3, 0), (4, 0), (5, 0)],
            e_porcentajes = None\<rparr>"
  by (rule estadisticas_sin_resenas) (simp add: calificaciones_def db_ejemplo_def)

section \<open>Properties of the totals\<close>

subsection \<open>The rounding error of the three amounts\<close>

text \<open>
  \<^verbatim>\<open>0.1\<close> is the float \<open>3602879701896397 / 2 ^ 55\<close>, a little more than a tenth, and each of
  \<^verbatim>\<open>subtotal * 0.1\<close>, the two additions and the three divisions by 100 rounds once. For a
  subtotal of \<open>S\<close> cents every amount returned is within \<open>(\<bar>S\<bar> + 1501) / 2 ^ 50\<close> of the
  exact one.
\<close>

lemma rd_error_w:
  assumes "\<bar>x\<bar> \<le> B" and "B + 1 \<le> c * (A + 1501)" and "w = (A + 1501) / 2 ^ 53"
  shows "\<bar>rd x - x\<bar> \<le> c * w"
proof -
  have "\<bar>rd x - x\<bar> \<le> (\<bar>x\<bar> + 1) / 2 ^ 53" by (rule rd_error)
  also have "\<dots> \<le> (c * (A + 1501)) / 2 ^ 53"
    using assms(1,2) by (intro divide_right_mono) simp_all
  also have "\<dots> = c * w" by (simp add: assms(3))
  finally show ?thesis .
qed

lemma fin_tenth: "fin (1 / 10) = Some (3602879701896397 / 36028797018963968)"
  using rd_eqI [of "- 4" "1 / 10" "- 56" 7205759403792794] by (simp add: pow2_def fin_def)

lemma abs_mult_le:
  fixes x w c :: rat
  assumes "\<bar>x\<bar> \<le> w" and "0 \<le> c"
  shows "\<bar>x * c\<bar> \<le> w * c"
proof -
  have "\<bar>x * c\<bar> = \<bar>x\<bar> * c" using assms(2) by (simp add: abs_mult)
  also have "\<dots> \<le> w * c" using assms by (rule mult_right_mono)
  finally show ?thesis .
qed

lemma producto_decimo:
  fixes sf S A w :: rat
  assumes "\<bar>sf - S\<bar> \<le> w" and "\<bar>S\<bar> \<le> A" and "A \<le> 9007199254740992 * w"
  shows "\<bar>sf * (3602879701896397 / 36028797018963968) - S / 10\<bar> \<le> w / 4"
proof -
  define c :: rat where "c = 3602879701896397 / 36028797018963968"
  define dl :: rat where "dl = 1 / 180143985094819840"
  have c: "0 \<le> c" "c \<le> 1 / 5" and dl: "0 \<le> dl" by (simp_all add: c_def dl_def)
  have e: "sf * c - S / 10 = (sf - S) * c + S * dl"
    by (simp add: c_def dl_def field_simps)
  from assms have w: "0 \<le> w" by linarith
  have 1: "\<bar>(sf - S) * c\<bar> \<le> w * c" using assms(1) c(1) by (rule abs_mult_le)
  have 2: "\<bar>S * dl\<bar> \<le> A * dl" using assms(2) dl by (rule abs_mult_le)
  from assms(3) have 3: "A * dl \<le> w / 20" by (simp add: dl_def)
  have 4: "w * c \<le> w * (1 / 5)" using c(2) w by (rule mult_left_mono)
  have "\<bar>sf * c - S / 10\<bar> \<le> \<bar>(sf - S) * c\<bar> + \<bar>S * dl\<bar>"
    unfolding e by (rule abs_triangle_ineq)
  with 1 2 3 4 have "\<bar>sf * c - S / 10\<bar> \<le> w / 4" by linarith
  then show ?thesis by (simp only: c_def)
qed

lemma totales_redondeo:
  fixes S :: rat
  assumes S: "\<bar>S\<bar> \<le> 2 ^ 990" and ev: "ev = 0 \<or> ev = 1500"
  shows "\<exists>sf a b t.
           fin S = Some sf \<and> fin (S / 100) = Some a \<and>
           fdiv100 (fmul (Some sf) (fin (1 / 10))) = Some b \<and>
           fdiv100 (fadd (fadd (Some sf) (fmul (Some sf) (fin (1 / 10)))) (Some ev)) = Some t \<and>
           \<bar>a - S / 100\<bar> \<le> (\<bar>S\<bar> + 1501) / 2 ^ 50 \<and>
           \<bar>b - S / 1000\<bar> \<le> (\<bar>S\<bar> + 1501) / 2 ^ 50 \<and>
           \<bar>t - (S + S / 10 + ev) / 100\<bar> \<le> (\<bar>S\<bar> + 1501) / 2 ^ 50"
proof -
  define A where "A = \<bar>S\<bar>"
  define w where "w = (A + 1501) / 2 ^ 53"
  define T :: rat where "T = 2 ^ 1000"
  have T: "30 * A + 40000 \<le> T"
  proof -
    have "30 * A + 40000 \<le> 30 * 2 ^ 990 + 40000" using S by (simp add: A_def)
    also have "\<dots> \<le> T" by (simp add: T_def)
    finally show ?thesis .
  qed
  have A: "0 \<le> A" "\<bar>S\<bar> \<le> A" by (simp_all add: A_def)
  have E: "0 \<le> ev" "ev \<le> 1500" using ev by auto
  have w: "0 \<le> w" "w \<le> A + 1501" "A \<le> 9007199254740992 * w"
    using A(1) by (simp_all add: w_def field_simps)
  note rw = rd_error_w [where A = A and w = w, OF _ _ w_def]
  let ?c = "3602879701896397 / 36028797018963968 :: rat"
  define sf where "sf = rd S"
  define p where "p = sf * ?c"
  define imp where "imp = rd p"
  define b where "b = rd (imp / 100)"
  define a where "a = rd (S / 100)"
  define s1 where "s1 = rd (sf + imp)"
  define s2 where "s2 = rd (s1 + ev)"
  define t where "t = rd (s2 / 100)"
  \<comment> \<open>one rounding at a time\<close>
  have sf: "\<bar>sf - S\<bar> \<le> w"
    using rw [of S A 1] A by (simp add: sf_def)
  have p: "\<bar>p - S / 10\<bar> \<le> w / 4"
    unfolding p_def using sf A(2) w(3) by (rule producto_decimo)
  have pB: "\<bar>p\<bar> \<le> 2 * A + 1501" using p A w by linarith
  have imp: "\<bar>imp - p\<bar> \<le> 2 * w"
    unfolding imp_def by (rule rw [OF pB]) (use A in simp)
  have i100: "\<bar>imp / 100\<bar> \<le> A + 46" using imp p A w by linarith
  have b: "\<bar>b - imp / 100\<bar> \<le> w"
    using rw [of "imp / 100" "A + 46" 1] i100 by (simp add: b_def)
  have S100: "\<bar>S / 100\<bar> \<le> A" using A by linarith
  have a: "\<bar>a - S / 100\<bar> \<le> w"
    using rw [of "S / 100" A 1] S100 by (simp add: a_def)
  have sumB: "\<bar>sf + imp\<bar> \<le> 6 * A + 6004" using sf imp p A w by linarith
  have s1: "\<bar>s1 - (sf + imp)\<bar> \<le> 6 * w"
    unfolding s1_def by (rule rw [OF sumB]) (use A in simp)
  have s1B: "\<bar>s1 + ev\<bar> \<le> 12 * A + 16510" using s1 sf imp p A w E by linarith
  have s2: "\<bar>s2 - (s1 + ev)\<bar> \<le> 12 * w"
    unfolding s2_def by (rule rw [OF s1B]) (use A in simp)
  have s2100: "\<bar>s2 / 100\<bar> \<le> A + 346" using s2 s1 sf imp p A w E by linarith
  have t: "\<bar>t - s2 / 100\<bar> \<le> w"
    using rw [of "s2 / 100" "A + 346" 1] s2100 by (simp add: t_def)
  \<comment> \<open>no operation overflows\<close>
  have f1: "fin S = Some sf"
    unfolding sf_def by (rule fin_Some) (use S in simp)
  have f2: "fin (S / 100) = Some a"
    unfolding a_def by (rule fin_Some) (use S100 A T in \<open>simp add: T_def\<close>)
  have "\<bar>p\<bar> \<le> T" using pB A T by linarith
  then have f3: "fmul (Some sf) (fin (1 / 10)) = Some imp"
    by (simp add: fmul_def fin_tenth imp_def p_def fin_Some T_def)
  have "\<bar>imp / 100\<bar> \<le> T" using i100 A T by linarith
  then have f4: "fdiv100 (Some imp) = Some b"
    by (simp add: fdiv100_def b_def fin_Some T_def)
  have "\<bar>sf + imp\<bar> \<le> T" using sumB A T by linarith
  then have f5: "fadd (Some sf) (Some imp) = Some s1"
    by (simp add: fadd_def s1_def fin_Some T_def)
  have "\<bar>s1 + ev\<bar> \<le> T" using s1B A T by linarith
  then have f6: "fadd (Some s1) (Some ev) = Some s2"
    by (simp add: fadd_def s2_def fin_Some T_def)
  have "\<bar>s2 / 100\<bar> \<le> T" using s2100 A T by linarith
  then have f7: "fdiv100 (Some s2) = Some t"
    by (simp add: fdiv100_def t_def fin_Some T_def)
  \<comment> \<open>the distance to the exact values\<close>
  have w8: "8 * w = (\<bar>S\<bar> + 1501) / 2 ^ 50" by (simp add: w_def A_def)
  have ea: "\<bar>a - S / 100\<bar> \<le> 8 * w" using a w by linarith
  have eb: "\<bar>b - S / 1000\<bar> \<le> 8 * w" using b imp p w by linarith
  have e0: "\<bar>t - (S / 100 + S / 1000 + ev / 100)\<bar> \<le> 8 * w"
    using t s2 s1 sf imp p w by linarith
  have eq: "(S + S / 10 + ev) / 100 = S / 100 + S / 1000 + ev / 100" by simp
  have et: "\<bar>t - (S + S / 10 + ev) / 100\<bar> \<le> 8 * w" unfolding eq by (rule e0)
  from f1 f2 f3 f4 f5 f6 f7 ea eb et show ?thesis
    unfolding w8 by (intro exI [of _ sf] exI [of _ a] exI [of _ b] exI [of _ t]) simp
qed

lemma calcular_totales_general:
  assumes c: "get_cart d cid = Some c" and S: "\<bar>subtotal_centavos d cid\<bar> \<le> 2 ^ 990"
  shows "\<exists>a b t.
           calcular_totales_carrito d cid
             = \<lparr>t_subtotal = Some a, t_impuestos = Some b,
                t_envio = Some (if subtotal_centavos d cid < 100000 then 15 else 0),
                t_total = Some t,
                t_total_items = sum_list (map item_cantidad
                                  (filter (\<lambda>r. item_cart_id r = cid) (cart_items d))),
                t_envio_gratis = (100000 \<le> subtotal_centavos d cid)\<rparr> \<and>
           \<bar>a - of_int (subtotal_centavos d cid) / 100\<bar>
             \<le> (\<bar>of_int (subtotal_centavos d cid)\<bar> + 1501) / 2 ^ 50 \<and>
           \<bar>b - of_int (subtotal_centavos d cid) / 1000\<bar>
             \<le> (\<bar>of_int (subtotal_centavos d cid)\<bar> + 1501) / 2 ^ 50 \<and>
           \<bar>t - (of_int (subtotal_centavos d cid) + of_int (subtotal_centavos d cid) / 10
                 + (if subtotal_centavos d cid < 100000 then 1500 else 0)) / 100\<bar>
             \<le> (\<bar>of_int (subtotal_centavos d cid)\<bar> + 1501) / 2 ^ 50"
proof -
  define n where "n = subtotal_centavos d cid"
  define ev :: rat where "ev = (if n < 100000 then 1500 else 0)"
  from c have id: "cart_id c = cid"
    by (auto simp: get_cart_def dest: first_row_Some)
  have "(of_int \<bar>n\<bar> :: rat) \<le> of_int (2 ^ 990)"
    using S unfolding n_def by (simp only: of_int_le_iff)
  then have Sr: "\<bar>of_int n :: rat\<bar> \<le> 2 ^ 990" by simp
  have "ev = 0 \<or> ev = 1500" by (simp add: ev_def)
  from totales_redondeo [OF Sr this] obtain sf a b t where
    f: "fin (of_int n) = Some sf" "fin (of_int n / 100) = Some a"
      "fdiv100 (fmul (Some sf) (fin (1 / 10))) = Some b"
      "fdiv100 (fadd (fadd (Some sf) (fmul (Some sf) (fin (1 / 10)))) (Some ev)) = Some t"
    and e: "\<bar>a - of_int n / 100\<bar> \<le> (\<bar>of_int n\<bar> + 1501) / 2 ^ 50"
      "\<bar>b - of_int n / 1000\<bar> \<le> (\<bar>of_int n\<bar> + 1501) / 2 ^ 50"
      "\<bar>t - (of_int n + of_int n / 10 + ev) / 100\<bar> \<le> (\<bar>of_int n\<bar> + 1501) / 2 ^ 50"
    by blast
  have v: "fin (of_int (if 100000 \<le> n then 0 else 1500)) = Some ev"
    "fin (of_int (if 100000 \<le> n then 0 else 1500) / 100) = Some (if n < 100000 then 15 else 0)"
    by (simp_all add: ev_def fin_numeral fin_0)
  have "calcular_totales_carrito d cid
          = \<lparr>t_subtotal = Some a, t_impuestos = Some b,
             t_envio = Some (if n < 100000 then 15 else 0), t_total = Some t,
             t_total_items = sum_list (map item_cantidad
                               (filter (\<lambda>r. item_cart_id r = cid) (cart_items d))),
             t_envio_gratis = (100000 \<le> n)\<rparr>"
    unfolding calcular_totales_carrito_def c Let_def option.case id
      subtotal_centavos_def [symmetric] n_def [symmetric]
    by (simp only: f v option.case)
  with e show ?thesis unfolding n_def [symmetric] ev_def by blast
qed

subsection \<open>C1: the totals of a cart\<close>

text \<open>
  The cart of the example: 3 at 5000 cents and 1 at 2000 cents. Here every float operation
  is exact.
\<close>

lemma fin_producto_17000: "fin (7656119366529843625 / 4503599627370496) = Some 1700"
  using rd_eqI [of 10 "7656119366529843625 / 4503599627370496" "- 42" 7476679068876800]
  by (simp add: pow2_def fin_def)

lemma calcular_totales_db_totales:
  "calcular_totales_carrito db_totales 1
     = \<lparr>t_subtotal = Some 170, t_impuestos = Some 17, t_envio = Some 15, t_total = Some 202,
        t_total_items = 4, t_envio_gratis = False\<rparr>"
  by (simp add: calcular_totales_carrito_def db_totales_def db_ejemplo_def get_cart_def
      first_row_def Let_def fmul_def fadd_def fdiv100_def fin_numeral fin_tenth
      fin_producto_17000)

text \<open>
  A cart with one item of 4999 cents: the tax in cents is the float
  \<^verbatim>\<open>499.90000000000003\<close> and the tax returned is \<^verbatim>\<open>4.9990000000000006\<close>, which is neither
  4.999 nor the float nearest to it.
\<close>

lemma fin_producto_4999:
  "fin (18010795629780088603 / 36028797018963968) = Some (8794333803603559 / 17592186044416)"
  using rd_eqI [of 8 "18010795629780088603 / 36028797018963968" "- 44" 8794333803603559]
  by (simp add: pow2_def fin_def)

lemma fin_impuestos_4999:
  "fin (8794333803603559 / 1759218604441600) = Some (2814186817153139 / 562949953421312)"
  using rd_eqI [of 2 "8794333803603559 / 1759218604441600" "- 50" 5628373634306278]
  by (simp add: pow2_def fin_def)

lemma fin_4_999: "fin (4999 / 1000) = Some (5628373634306277 / 1125899906842624)"
  using rd_eqI [of 2 "4999 / 1000" "- 50" 5628373634306277]
  by (simp add: pow2_def fin_def)

lemma impuestos_db_4999:
  "t_impuestos (calcular_totales_carrito db_4999 1)
     = Some (2814186817153139 / 562949953421312)"
  by (simp add: calcular_totales_carrito_def db_4999_def db_ejemplo_def get_cart_def
      first_row_def Let_def fmul_def fadd_def fdiv100_def fin_numeral fin_tenth
      fin_producto_4999 fin_impuestos_4999)

text \<open>
  C1, as the specification words it, at the cart with one item of 4999 cents: the tax
  returned is not 10 percent of the subtotal divided by 100, neither exactly nor as the
  nearest float.
\<close>

theorem impuestos_no_exactos:
  "t_impuestos (calcular_totales_carrito db_4999 1) \<noteq> fin (4999 / 10 / 100) \<and>
   t_impuestos (calcular_totales_carrito db_4999 1) \<noteq> Some (4999 / 10 / 100)"
  by (simp add: impuestos_db_4999 fin_4_999)

text \<open>
  C1: for every existing cart whose subtotal \<open>S\<close> (the sum over its items of quantity times
  unit price, in integer cents) is at most \<open>2 ^ 990\<close> in absolute value,
  \<^verbatim>\<open>calcular_totales_carrito\<close> returns the subtotal \<open>S / 100\<close>, the tax \<open>S / 1000\<close> and the total
  \<open>(S + S / 10 + shipping) / 100\<close>, each up to a float rounding error of at most
  \<open>(\<bar>S\<bar> + 1501) / 2 ^ 50\<close>; the shipping is exactly 15.0 (1500 cents) if \<open>S < 100000\<close> and 0
  otherwise, the number of items is the sum of the quantities, and shipping is free from
  100000 cents on. The cart with items (5000 cents, 3) and (2000 cents, 1) has the subtotal
  17000 cents and gives exactly 170.0, 17.0, 15.0 and the total 202.0.
\<close>

theorem calcular_totales_carrito_redondeado:
  "(get_cart d cid = Some c \<and> \<bar>subtotal_centavos d cid\<bar> \<le> 2 ^ 990 \<longrightarrow>
      (\<exists>a b t.
         calcular_totales_carrito d cid
           = \<lparr>t_subtotal = Some a, t_impuestos = Some b,
              t_envio = Some (if subtotal_centavos d cid < 100000 then 15 else 0),
              t_total = Some t,
              t_total_items = sum_list (map item_cantidad
                                (filter (\<lambda>r. item_cart_id r = cid) (cart_items d))),
              t_envio_gratis = (100000 \<le> subtotal_centavos d cid)\<rparr> \<and>
         \<bar>a - of_int (subtotal_centavos d cid) / 100\<bar>
           \<le> (\<bar>of_int (subtotal_centavos d cid)\<bar> + 1501) / 2 ^ 50 \<and>
         \<bar>b - of_int (subtotal_centavos d cid) / 1000\<bar>
           \<le> (\<bar>of_int (subtotal_centavos d cid)\<bar> + 1501) / 2 ^ 50 \<and>
         \<bar>t - (of_int (subtotal_centavos d cid) + of_int (subtotal_centavos d cid) / 10
               + (if subtotal_centavos d cid < 100000 then 1500 else 0)) / 100\<bar>
           \<le> (\<bar>of_int (subtotal_centavos d cid)\<bar> + 1501) / 2 ^ 50)) \<and>
   subtotal_centavos db_totales 1 = 17000 \<and>
   calcular_totales_carrito db_totales 1
     = \<lparr>t_subtotal = Some 170, t_impuestos = Some 17, t_envio = Some 15, t_total = Some 202,
        t_total_items = 4, t_envio_gratis = False\<rparr>"
proof (intro conjI impI)
  assume "get_cart d cid = Some c \<and> \<bar>subtotal_centavos d cid\<bar> \<le> 2 ^ 990"
  then show "\<exists>a b t.
         calcular_totales_carrito d cid
           = \<lparr>t_subtotal = Some a, t_impuestos = Some b,
              t_envio = Some (if subtotal_centavos d cid < 100000 then 15 else 0),
              t_total = Some t,
              t_total_items = sum_list (map item_cantidad
                                (filter (\<lambda>r. item_cart_id r = cid) (cart_items d))),
              t_envio_gratis = (100000 \<le> subtotal_centavos d cid)\<rparr> \<and>
         \<bar>a - of_int (subtotal_centavos d cid) / 100\<bar>
           \<le> (\<bar>of_int (subtotal_centavos d cid)\<bar> + 1501) / 2 ^ 50 \<and>
         \<bar>b - of_int (subtotal_centavos d cid) / 1000\<bar>
           \<le> (\<bar>of_int (subtotal_centavos d cid)\<bar> + 1501) / 2 ^ 50 \<and>
         \<bar>t - (of_int (subtotal_centavos d cid) + of_int (subtotal_centavos d cid) / 10
               + (if subtotal_centavos d cid < 100000 then 1500 else 0)) / 100\<bar>
           \<le> (\<bar>of_int (subtotal_centavos d cid)\<bar> + 1501) / 2 ^ 50"
    using calcular_totales_general [of d cid c] by blast
next
  show "subtotal_centavos db_totales 1 = 17000"
    by (simp add: subtotal_centavos_def db_totales_def db_ejemplo_def)
next
  show "calcular_totales_carrito db_totales 1
     = \<lparr>t_subtotal = Some 170, t_impuestos = Some 17, t_envio = Some 15, t_total = Some 202,
        t_total_items = 4, t_envio_gratis = False\<rparr>"
    by (rule calcular_totales_db_totales)
qed

theorem calcular_totales_carrito_redondeado_witness:
  "get_cart db_totales 1
     = Some \<lparr>cart_id = 1, cart_usuario_id = Some 7, cart_session_id = Some ''s1'',
             cart_activo = True\<rparr> \<and>
   subtotal_centavos db_totales 1 = 17000 \<and>
   (\<exists>a b t.
      calcular_totales_carrito db_totales 1
        = \<lparr>t_subtotal = Some a, t_impuestos = Some b, t_envio = Some 15, t_total = Some t,
           t_total_items = 4, t_envio_gratis = False\<rparr> \<and>
      \<bar>a - 170\<bar> \<le> 18501 / 2 ^ 50 \<and> \<bar>b - 17\<bar> \<le> 18501 / 2 ^ 50 \<and>
      \<bar>t - 202\<bar> \<le> 18501 / 2 ^ 50)"
proof -
  have g: "get_cart db_totales 1
     = Some \<lparr>cart_id = 1, cart_usuario_id = Some 7, cart_session_id = Some ''s1'',
             cart_activo = True\<rparr>"
    by (simp add: get_cart_def first_row_def db_totales_def db_ejemplo_def)
  have s: "subtotal_centavos db_totales 1 = 17000"
    by (simp add: subtotal_centavos_def db_totales_def db_ejemplo_def)
  have i: "sum_list (map item_cantidad
             (filter (\<lambda>r. item_cart_id r = 1) (cart_items db_totales))) = 4"
    by (simp add: db_totales_def db_ejemplo_def)
  from calcular_totales_carrito_redondeado
    [of db_totales 1 "\<lparr>cart_id = 1, cart_usuario_id = Some 7, cart_session_id = Some ''s1'',
             cart_activo = True\<rparr>"]
  show ?thesis by (simp add: g s i)
qed

section \<open>Properties of the migration\<close>

subsection \<open>Queries and updates of one row\<close>









subsection \<open>The items of a cart\<close>




subsection \<open>The loop over the items of the session cart\<close>









subsection \<open>C6: migrating the cart of a session\<close>











end
